theory Spec2Isabelle
  imports Main
begin

section \<open>JavaScript values\<close>

text \<open>
  The value returned by \<^verbatim>\<open>JSON.parse\<close>. An object carries its own properties in
  enumeration order; \<^verbatim>\<open>JSON.parse\<close> never yields two properties with one key. Numbers
  are the integral ones; a string is a list of code units.
\<close>

datatype json =
    JNull
  | JBool bool
  | JNum int
  | JStr string
  | JArr "json list"
  | JObj "(string \<times> json) list"

datatype error =
    Error string
  | SyntaxError string
  | TypeError string

text \<open>
  \<^verbatim>\<open>Number.prototype.toString\<close> on an integral number of magnitude at most \<open>2^53\<close>: the
  decimal digits, with a minus sign for a negative number. Beyond that magnitude JavaScript
  prints the shortest digits that read back as the same double, which are not all the
  digits printed here, and from \<open>10^21\<close> on it prints an exponent; fractions and
  \<^verbatim>\<open>NaN\<close> have no counterpart in \<open>int\<close>. The statements below leave the rendering of
  the number as \<open>number_toString\<close>.
\<close>

fun nat_toString :: "nat \<Rightarrow> string" where
  "nat_toString n =
     (if n < 10 then [''0123456789'' ! n]
      else nat_toString (n div 10) @ [''0123456789'' ! (n mod 10)])"

definition number_toString :: "int \<Rightarrow> string" where
  "number_toString n =
     (if n < 0 then CHR ''-'' # nat_toString (nat (- n)) else nat_toString (nat n))"

text \<open>Truthiness of a JSON value, as the \<^verbatim>\<open>!\<close> operator sees it.\<close>

fun js_falsy :: "json \<Rightarrow> bool" where
  "js_falsy JNull = True"
| "js_falsy (JBool b) = (\<not> b)"
| "js_falsy (JNum n) = (n = 0)"
| "js_falsy (JStr s) = (s = [])"
| "js_falsy (JArr xs) = False"
| "js_falsy (JObj ps) = False"

text \<open>
  Property access \<^verbatim>\<open>v[key]\<close> on a parsed JSON value. The result is \<open>None\<close> where
  JavaScript yields \<^verbatim>\<open>undefined\<close> or a built-in inherited from a prototype (a function or
  the prototype object itself), none of which is a JSON value. Reading a property of
  \<^verbatim>\<open>null\<close> throws.
\<close>

definition array_index :: "string \<Rightarrow> nat \<Rightarrow> nat option" where
  "array_index key n = find (\<lambda>i. nat_toString i = key) [0..<n]"

fun js_get :: "json \<Rightarrow> string \<Rightarrow> error + json option" where
  "js_get JNull key = Inl (TypeError ''Cannot read properties of null'')"
| "js_get (JBool b) key = Inr None"
| "js_get (JNum n) key = Inr None"
| "js_get (JStr s) key =
     (if key = ''length'' then Inr (Some (JNum (int (length s))))
      else (case array_index key (length s) of
              None \<Rightarrow> Inr None
            | Some i \<Rightarrow> Inr (Some (JStr [s ! i]))))"
| "js_get (JArr xs) key =
     (if key = ''length'' then Inr (Some (JNum (int (length xs))))
      else (case array_index key (length xs) of
              None \<Rightarrow> Inr None
            | Some i \<Rightarrow> Inr (Some (xs ! i))))"
| "js_get (JObj ps) key = Inr (map_of ps key)"

text \<open>\<^verbatim>\<open>Object.entries\<close> on a parsed JSON value.\<close>

fun Object_entries :: "json \<Rightarrow> error + (string \<times> json) list" where
  "Object_entries JNull = Inl (TypeError ''Cannot convert undefined or null to object'')"
| "Object_entries (JBool b) = Inr []"
| "Object_entries (JNum n) = Inr []"
| "Object_entries (JStr s) =
     Inr (zip (map nat_toString [0..<length s]) (map (\<lambda>c. JStr [c]) s))"
| "Object_entries (JArr xs) = Inr (zip (map nat_toString [0..<length xs]) xs)"
| "Object_entries (JObj ps) = Inr ps"

section \<open>Options and results of the lifecycle operations\<close>

text \<open>Handles for the caller's functions: an inline program and an output callback.\<close>

datatype PulumiFn = PulumiFn string

datatype OutputCallback = OutputCallback string

record UpOptions =
  up_parallel :: "int option"
  up_message :: "string option"
  up_expectNoChanges :: "bool option"
  up_replace :: "string list option"
  up_target :: "string list option"
  up_targetDependents :: "bool option"
  up_onOutput :: "OutputCallback option"
  up_program :: "PulumiFn option"

record PreviewOptions =
  pre_parallel :: "int option"
  pre_message :: "string option"
  pre_expectNoChanges :: "bool option"
  pre_replace :: "string list option"
  pre_target :: "string list option"
  pre_targetDependents :: "bool option"
  pre_program :: "PulumiFn option"

record RefreshOptions =
  ref_parallel :: "int option"
  ref_message :: "string option"
  ref_expectNoChanges :: "bool option"
  ref_target :: "string list option"
  ref_onOutput :: "OutputCallback option"

record DestroyOptions =
  des_parallel :: "int option"
  des_message :: "string option"
  des_target :: "string list option"
  des_targetDependents :: "bool option"
  des_onOutput :: "OutputCallback option"

text \<open>The condition of \<^verbatim>\<open>if (field)\<close> on an optional field of each type.\<close>

definition truthy_string :: "string option \<Rightarrow> bool" where
  "truthy_string x = (case x of None \<Rightarrow> False | Some s \<Rightarrow> s \<noteq> [])"

definition truthy_boolean :: "bool option \<Rightarrow> bool" where
  "truthy_boolean x = (case x of None \<Rightarrow> False | Some b \<Rightarrow> b)"

definition truthy_number :: "int option \<Rightarrow> bool" where
  "truthy_number x = (case x of None \<Rightarrow> False | Some n \<Rightarrow> n \<noteq> 0)"

text \<open>\<^verbatim>\<open>if (message) args.push("--message", message)\<close> and its siblings.\<close>

definition push_message :: "string option \<Rightarrow> string list \<Rightarrow> string list" where
  "push_message message args =
     (case message of
        None \<Rightarrow> args
      | Some m \<Rightarrow> if truthy_string message then args @ [''--message'', m] else args)"

definition push_switch :: "string \<Rightarrow> bool option \<Rightarrow> string list \<Rightarrow> string list" where
  "push_switch flag field args = (if truthy_boolean field then args @ [flag] else args)"

text \<open>\<^verbatim>\<open>for (const urn of urns) args.push(flag, urn)\<close>\<close>

fun push_each :: "string \<Rightarrow> string list \<Rightarrow> string list \<Rightarrow> string list" where
  "push_each flag [] args = args"
| "push_each flag (urn # urns) args = push_each flag urns (args @ [flag, urn])"

text \<open>An array is truthy even when it is empty, so only \<^verbatim>\<open>undefined\<close> skips the loop.\<close>

definition push_urns :: "string \<Rightarrow> string list option \<Rightarrow> string list \<Rightarrow> string list" where
  "push_urns flag field args =
     (case field of None \<Rightarrow> args | Some urns \<Rightarrow> push_each flag urns args)"

definition push_parallel :: "int option \<Rightarrow> string list \<Rightarrow> string list" where
  "push_parallel parallel args =
     (case parallel of
        None \<Rightarrow> args
      | Some n \<Rightarrow>
          if truthy_number parallel then args @ [''--parallel'', number_toString n] else args)"

text \<open>
  The block \<^verbatim>\<open>if (opts) { ... }\<close> of each operation, as a transformer of the locals it
  assigns: \<^verbatim>\<open>program\<close> and \<^verbatim>\<open>args\<close> in \<^verbatim>\<open>up\<close> and \<^verbatim>\<open>preview\<close>, \<^verbatim>\<open>args\<close> alone in
  \<^verbatim>\<open>refresh\<close> and \<^verbatim>\<open>destroy\<close>.
\<close>

definition up_options ::
  "UpOptions option \<Rightarrow> PulumiFn option \<times> string list \<Rightarrow> PulumiFn option \<times> string list" where
  "up_options opts locals =
     (case opts of
        None \<Rightarrow> locals
      | Some opt \<Rightarrow>
          (let program = (case up_program opt of Some f \<Rightarrow> Some f | None \<Rightarrow> fst locals);
               args = push_message (up_message opt) (snd locals);
               args = push_switch ''--expect-no-changes'' (up_expectNoChanges opt) args;
               args = push_urns ''--replace'' (up_replace opt) args;
               args = push_urns ''--target'' (up_target opt) args;
               args = push_switch ''--target-dependents'' (up_targetDependents opt) args;
               args = push_parallel (up_parallel opt) args
           in (program, args)))"

definition preview_options ::
  "PreviewOptions option \<Rightarrow> PulumiFn option \<times> string list \<Rightarrow> PulumiFn option \<times> string list" where
  "preview_options opts locals =
     (case opts of
        None \<Rightarrow> locals
      | Some opt \<Rightarrow>
          (let program = (case pre_program opt of Some f \<Rightarrow> Some f | None \<Rightarrow> fst locals);
               args = push_message (pre_message opt) (snd locals);
               args = push_switch ''--expect-no-changes'' (pre_expectNoChanges opt) args;
               args = push_urns ''--replace'' (pre_replace opt) args;
               args = push_urns ''--target'' (pre_target opt) args;
               args = push_switch ''--target-dependents'' (pre_targetDependents opt) args;
               args = push_parallel (pre_parallel opt) args
           in (program, args)))"

definition refresh_options :: "RefreshOptions option \<Rightarrow> string list \<Rightarrow> string list" where
  "refresh_options opts args0 =
     (case opts of
        None \<Rightarrow> args0
      | Some opt \<Rightarrow>
          (let args = push_message (ref_message opt) args0;
               args = push_switch ''--expect-no-changes'' (ref_expectNoChanges opt) args;
               args = push_urns ''--target'' (ref_target opt) args;
               args = push_parallel (ref_parallel opt) args
           in args))"

definition destroy_options :: "DestroyOptions option \<Rightarrow> string list \<Rightarrow> string list" where
  "destroy_options opts args0 =
     (case opts of
        None \<Rightarrow> args0
      | Some opt \<Rightarrow>
          (let args = push_message (des_message opt) args0;
               args = push_urns ''--target'' (des_target opt) args;
               args = push_switch ''--target-dependents'' (des_targetDependents opt) args;
               args = push_parallel (des_parallel opt) args
           in args))"

record CommandResult =
  stdout :: string
  stderr :: string

record OutputValue =
  ov_value :: json
  ov_secret :: bool

text \<open>
  An \<^verbatim>\<open>OutputMap\<close> is the plain object that \<^verbatim>\<open>outputs\<close> creates with the literal
  \<^verbatim>\<open>{}\<close> and fills by assignment: its own properties, and its prototype when an
  assignment has replaced the default one.
\<close>

record OutputMap =
  om_own :: "string \<rightharpoonup> OutputValue"
  om_proto :: "OutputValue option"

text \<open>
  At run time the \<^verbatim>\<open>summary\<close> of a result holds whatever \<^verbatim>\<open>info\<close> resolved to, an
  element of the parsed history or \<^verbatim>\<open>undefined\<close> (\<open>None\<close>): the non-null assertion
  \<^verbatim>\<open>!\<close> is erased by the compiler.
\<close>

record UpResult =
  up_stdout :: string
  up_stderr :: string
  up_outputs :: OutputMap
  up_summary :: "json option"

record SummaryResult =
  res_stdout :: string
  res_stderr :: string
  res_summary :: "json option"

type_synonym PreviewResult = SummaryResult

type_synonym RefreshResult = SummaryResult

type_synonym DestroyResult = SummaryResult

definition execKind_local :: string where
  "execKind_local = ''auto.local''"

definition execKind_inline :: string where
  "execKind_inline = ''auto.inline''"

section \<open>Asynchronous operations and the collaborators\<close>

text \<open>
  An asynchronous operation is a function of the system state that returns its settled
  outcome, \<open>Inl\<close> a rejection and \<open>Inr\<close> a resolution, with the state it leaves. The
  state is the collaborators' own state \<open>world\<close>, of which nothing is known, and the
  list of the argument lists given so far to the command execution endpoint.
\<close>

record 'w sys =
  world :: 'w
  invocations :: "string list list"

type_synonym ('w, 'a) io = "'w sys \<Rightarrow> (error + 'a) \<times> 'w sys"

definition return_io :: "'a \<Rightarrow> ('w, 'a) io" where
  "return_io x s = (Inr x, s)"

definition throw_io :: "error \<Rightarrow> ('w, 'a) io" where
  "throw_io e s = (Inl e, s)"

text \<open>\<^verbatim>\<open>const x = await m; f(x)\<close>: a rejection of \<open>m\<close> skips the rest.\<close>

definition bind_io :: "('w, 'a) io \<Rightarrow> ('a \<Rightarrow> ('w, 'b) io) \<Rightarrow> ('w, 'b) io" where
  "bind_io m f s = (case m s of (Inl e, s') \<Rightarrow> (Inl e, s') | (Inr x, s') \<Rightarrow> f x s')"

text \<open>
  \<^verbatim>\<open>await Promise.all([m1, m2])\<close>. In JavaScript both operations are started, their steps
  interleave, both run to their end whatever the other does, and the rejection reported is
  the one that comes first in time. The model runs the first operation to its end before
  it starts the second, and reports the rejection of the first before that of the second.
  So the model agrees with the code on the pair that results when both resolve, and on the
  fact that a rejection of either rejects the whole; the order of the calls the two
  operations make and the choice between two rejections are the model's own. The
  statements below use only the former.
\<close>

definition promise_all2 :: "('w, 'a) io \<Rightarrow> ('w, 'b) io \<Rightarrow> ('w, 'a \<times> 'b) io" where
  "promise_all2 m1 m2 s =
     (case m1 s of
        (r1, s1) \<Rightarrow>
          (case m2 s1 of
             (r2, s2) \<Rightarrow>
               (case r1 of
                  Inl e \<Rightarrow> (Inl e, s2)
                | Inr a \<Rightarrow> (case r2 of Inl e \<Rightarrow> (Inl e, s2) | Inr b \<Rightarrow> (Inr (a, b), s2)))))"

text \<open>
  The \<^verbatim>\<open>Workspace\<close> interface, declared in \<^verbatim>\<open>./workspace\<close>: the methods that
  \<^verbatim>\<open>stack.ts\<close> calls, each a parameter.
\<close>

record 'w Workspace =
  createStack :: "string \<Rightarrow> 'w \<Rightarrow> (error + unit) \<times> 'w"
  selectStack :: "string \<Rightarrow> 'w \<Rightarrow> (error + unit) \<times> 'w"
  getProgram :: "'w \<Rightarrow> PulumiFn option"
  getPulumiHome :: "'w \<Rightarrow> string option"
  getEnvVars :: "'w \<Rightarrow> (error + (string \<rightharpoonup> string)) \<times> 'w"
  serializeArgsForOp :: "string \<Rightarrow> 'w \<Rightarrow> (error + string list) \<times> 'w"
  getWorkDir :: "'w \<Rightarrow> string"
  postCommandCallback :: "string \<Rightarrow> 'w \<Rightarrow> (error + unit) \<times> 'w"

text \<open>
  What \<^verbatim>\<open>stack.ts\<close> uses from outside the class: the command execution endpoint
  \<^verbatim>\<open>runPulumiCmd\<close> of \<^verbatim>\<open>./cmd\<close> and the built-in \<^verbatim>\<open>JSON.parse\<close>.
\<close>

record 'w Platform =
  cmd_runPulumiCmd ::
    "string list \<Rightarrow> string \<Rightarrow> (string \<rightharpoonup> string) \<Rightarrow> OutputCallback option \<Rightarrow>
     'w \<Rightarrow> (error + CommandResult) \<times> 'w"
  JSON_parse :: "string \<Rightarrow> error + json"

text \<open>A call of an asynchronous \<^verbatim>\<open>Workspace\<close> method: it acts on the world alone.\<close>

definition workspace_call :: "('w \<Rightarrow> (error + 'a) \<times> 'w) \<Rightarrow> ('w, 'a) io" where
  "workspace_call f s = (case f (world s) of (r, w) \<Rightarrow> (r, s\<lparr>world := w\<rparr>))"

text \<open>A call of the command execution endpoint: the argument list is recorded.\<close>

definition invoke_runPulumiCmd ::
  "'w Platform \<Rightarrow> 'w Workspace \<Rightarrow> string list \<Rightarrow> (string \<rightharpoonup> string) \<Rightarrow>
   OutputCallback option \<Rightarrow> ('w, CommandResult) io" where
  "invoke_runPulumiCmd pf ws args envs onOutput s =
     (case cmd_runPulumiCmd pf args (getWorkDir ws (world s)) envs onOutput (world s) of
        (r, w) \<Rightarrow> (r, \<lparr>world = w, invocations = invocations s @ [args]\<rparr>))"

section \<open>The Stack class\<close>

text \<open>
  A \<^verbatim>\<open>Stack\<close> object. The field \<open>stack_ready\<close> is the outcome the promise \<^verbatim>\<open>ready\<close>
  settles to.
\<close>

record 'w Stack =
  stack_ready :: "error + unit"
  stack_name :: string
  stack_workspace :: "'w Workspace"

text \<open>
  The constructor. A mode outside the three of \<^verbatim>\<open>StackInitMode\<close> makes it throw; otherwise
  it returns the object, whose \<^verbatim>\<open>ready\<close> carries the outcome of the workspace calls.
\<close>

definition Stack_constructor ::
  "string \<Rightarrow> 'w Workspace \<Rightarrow> string \<Rightarrow> ('w, 'w Stack) io" where
  "Stack_constructor name workspace mode s =
     (if mode = ''create'' then
        (case workspace_call (createStack workspace name) s of
           (r, s') \<Rightarrow>
             (Inr \<lparr>stack_ready = r, stack_name = name, stack_workspace = workspace\<rparr>, s'))
      else if mode = ''select'' then
        (case workspace_call (selectStack workspace name) s of
           (r, s') \<Rightarrow>
             (Inr \<lparr>stack_ready = r, stack_name = name, stack_workspace = workspace\<rparr>, s'))
      else if mode = ''upsert'' then
        (case workspace_call (createStack workspace name) s of
           (Inr u, s') \<Rightarrow>
             (Inr \<lparr>stack_ready = Inr u, stack_name = name, stack_workspace = workspace\<rparr>, s')
         | (Inl e, s') \<Rightarrow>
             (case workspace_call (selectStack workspace name) s' of
                (r, s'') \<Rightarrow>
                  (Inr \<lparr>stack_ready = r, stack_name = name, stack_workspace = workspace\<rparr>,
                   s'')))
      else (Inl (Error (''unexpected Stack creation mode: '' @ mode)), s))"

text \<open>\<^verbatim>\<open>const stack = new Stack(name, workspace, mode); await stack.ready; return stack\<close>\<close>

definition new_and_await ::
  "string \<Rightarrow> 'w Workspace \<Rightarrow> string \<Rightarrow> ('w, 'w Stack) io" where
  "new_and_await name workspace mode =
     bind_io (Stack_constructor name workspace mode) (\<lambda>stack.
       case stack_ready stack of
         Inl e \<Rightarrow> throw_io e
       | Inr u \<Rightarrow> return_io stack)"

definition Create :: "string \<Rightarrow> 'w Workspace \<Rightarrow> ('w, 'w Stack) io" where
  "Create name workspace = new_and_await name workspace ''create''"

definition Select :: "string \<Rightarrow> 'w Workspace \<Rightarrow> ('w, 'w Stack) io" where
  "Select name workspace = new_and_await name workspace ''select''"

definition Upsert :: "string \<Rightarrow> 'w Workspace \<Rightarrow> ('w, 'w Stack) io" where
  "Upsert name workspace = new_and_await name workspace ''upsert''"

text \<open>The private method \<^verbatim>\<open>runPulumiCmd\<close>.\<close>

definition Stack_runPulumiCmd ::
  "'w Platform \<Rightarrow> 'w Stack \<Rightarrow> string list \<Rightarrow> OutputCallback option \<Rightarrow>
   ('w, CommandResult) io" where
  "Stack_runPulumiCmd pf this args onOutput s =
     (let ws = stack_workspace this;
          envs = Map.empty;
          pulumiHome = getPulumiHome ws (world s);
          envs = (case pulumiHome of
                    None \<Rightarrow> envs
                  | Some home \<Rightarrow>
                      if truthy_string pulumiHome then envs(''PULUMI_HOME'' \<mapsto> home) else envs)
      in bind_io (workspace_call (getEnvVars ws)) (\<lambda>additionalEnvs.
         bind_io (workspace_call (serializeArgsForOp ws (stack_name this))) (\<lambda>additionalArgs.
         bind_io (invoke_runPulumiCmd pf ws (args @ additionalArgs) (envs ++ additionalEnvs)
                    onOutput) (\<lambda>result.
         bind_io (workspace_call (postCommandCallback ws (stack_name this))) (\<lambda>_.
         return_io result)))) s)"

definition history :: "'w Platform \<Rightarrow> 'w Stack \<Rightarrow> ('w, json) io" where
  "history pf this =
     bind_io (Stack_runPulumiCmd pf this [''history'', ''--json'', ''--show-secrets''] None)
       (\<lambda>result.
          case JSON_parse pf (stdout result) of
            Inl e \<Rightarrow> throw_io e
          | Inr summaries \<Rightarrow> return_io summaries)"

text \<open>
  \<^verbatim>\<open>if (!history || history.length === 0) return undefined; return history[0]\<close>
\<close>

definition info :: "'w Platform \<Rightarrow> 'w Stack \<Rightarrow> ('w, json option) io" where
  "info pf this =
     bind_io (history pf this) (\<lambda>history.
       if js_falsy history then return_io None
       else (case js_get history ''length'' of
               Inl e \<Rightarrow> throw_io e
             | Inr len \<Rightarrow>
                 if len = Some (JNum 0) then return_io None
                 else (case js_get history ''0'' of
                         Inl e \<Rightarrow> throw_io e
                       | Inr first \<Rightarrow> return_io first)))"

text \<open>
  The assignment \<^verbatim>\<open>outputs[key] = v\<close> on the object made by \<^verbatim>\<open>{}\<close>, where \<open>v\<close> is an
  object. The key \<^verbatim>\<open>__proto__\<close> names the accessor inherited from \<^verbatim>\<open>Object.prototype\<close>:
  its setter makes \<open>v\<close> the prototype of the object and defines no own property. Every
  other key defines or overwrites an own property.
\<close>

definition OutputMap_assign :: "OutputMap \<Rightarrow> string \<Rightarrow> OutputValue \<Rightarrow> OutputMap" where
  "OutputMap_assign outs key v =
     (if key = ''__proto__'' then outs\<lparr>om_proto := Some v\<rparr>
      else outs\<lparr>om_own := (om_own outs)(key \<mapsto> v)\<rparr>)"

definition secretSentinal :: string where
  "secretSentinal = ''[secret]''"

text \<open>
  The loop of \<^verbatim>\<open>outputs\<close> over the entries of the plaintext view:
  \<^verbatim>\<open>const secret = maskedOuts[key] === secretSentinal; outputs[key] = { value, secret }\<close>
\<close>

fun outputs_loop :: "json \<Rightarrow> (string \<times> json) list \<Rightarrow> OutputMap \<Rightarrow> error + OutputMap" where
  "outputs_loop maskedOuts [] outs = Inr outs"
| "outputs_loop maskedOuts ((key, v) # entries) outs =
     (case js_get maskedOuts key of
        Inl e \<Rightarrow> Inl e
      | Inr masked \<Rightarrow>
          (let secret = (masked = Some (JStr secretSentinal))
           in outputs_loop maskedOuts entries
                (OutputMap_assign outs key \<lparr>ov_value = v, ov_secret = secret\<rparr>)))"

text \<open>What \<^verbatim>\<open>outputs\<close> does with the standard output of its two queries.\<close>

definition reconcile :: "'w Platform \<Rightarrow> string \<Rightarrow> string \<Rightarrow> error + OutputMap" where
  "reconcile pf masked_stdout plaintext_stdout =
     (case JSON_parse pf masked_stdout of
        Inl e \<Rightarrow> Inl e
      | Inr maskedOuts \<Rightarrow>
          (case JSON_parse pf plaintext_stdout of
             Inl e \<Rightarrow> Inl e
           | Inr plaintextOuts \<Rightarrow>
               (case Object_entries plaintextOuts of
                  Inl e \<Rightarrow> Inl e
                | Inr entries \<Rightarrow>
                    outputs_loop maskedOuts entries \<lparr>om_own = Map.empty, om_proto = None\<rparr>)))"

definition outputs :: "'w Platform \<Rightarrow> 'w Stack \<Rightarrow> ('w, OutputMap) io" where
  "outputs pf this =
     bind_io (workspace_call (selectStack (stack_workspace this) (stack_name this))) (\<lambda>_.
     bind_io (promise_all2
                (Stack_runPulumiCmd pf this [''stack'', ''output'', ''--json''] None)
                (Stack_runPulumiCmd pf this
                   [''stack'', ''output'', ''--json'', ''--show-secrets''] None)) (\<lambda>results.
       case reconcile pf (stdout (fst results)) (stdout (snd results)) of
         Inl e \<Rightarrow> throw_io e
       | Inr outs \<Rightarrow> return_io outs))"

text \<open>
  \<^verbatim>\<open>if (program) { kind = execKind.inline; throw new Error("NYI: inline programs"); }\<close>
  The first component is the value of the local \<^verbatim>\<open>kind\<close> after the statement.
\<close>

definition inline_program_check :: "PulumiFn option \<Rightarrow> string \<Rightarrow> string \<times> (error + unit)" where
  "inline_program_check program kind =
     (case program of
        Some f \<Rightarrow> (execKind_inline, Inl (Error ''NYI: inline programs''))
      | None \<Rightarrow> (kind, Inr ()))"

definition up :: "'w Platform \<Rightarrow> 'w Stack \<Rightarrow> UpOptions option \<Rightarrow> ('w, UpResult) io" where
  "up pf this opts s =
     (let args = [''up'', ''--yes'', ''--skip-preview''];
          kind = execKind_local;
          program = getProgram (stack_workspace this) (world s)
      in bind_io (workspace_call (selectStack (stack_workspace this) (stack_name this))) (\<lambda>_.
           case up_options opts (program, args) of
             (program, args) \<Rightarrow>
               (case inline_program_check program kind of
                  (kind, Inl e) \<Rightarrow> throw_io e
                | (kind, Inr _) \<Rightarrow>
                    bind_io (Stack_runPulumiCmd pf this (args @ [''--exec-kind'', kind])
                               (case opts of None \<Rightarrow> None | Some opt \<Rightarrow> up_onOutput opt))
                      (\<lambda>upResult.
                    bind_io (promise_all2 (info pf this) (outputs pf this)) (\<lambda>status.
                    return_io
                      \<lparr>up_stdout = stdout upResult, up_stderr = stderr upResult,
                       up_outputs = snd status, up_summary = fst status\<rparr>)))) s)"

definition preview ::
  "'w Platform \<Rightarrow> 'w Stack \<Rightarrow> PreviewOptions option \<Rightarrow> ('w, PreviewResult) io" where
  "preview pf this opts s =
     (let args = [''preview''];
          kind = execKind_local;
          program = getProgram (stack_workspace this) (world s)
      in bind_io (workspace_call (selectStack (stack_workspace this) (stack_name this))) (\<lambda>_.
           case preview_options opts (program, args) of
             (program, args) \<Rightarrow>
               (case inline_program_check program kind of
                  (kind, Inl e) \<Rightarrow> throw_io e
                | (kind, Inr _) \<Rightarrow>
                    bind_io (Stack_runPulumiCmd pf this (args @ [''--exec-kind'', kind]) None)
                      (\<lambda>preResult.
                    bind_io (info pf this) (\<lambda>summary.
                    return_io
                      \<lparr>res_stdout = stdout preResult, res_stderr = stderr preResult,
                       res_summary = summary\<rparr>)))) s)"

definition refresh ::
  "'w Platform \<Rightarrow> 'w Stack \<Rightarrow> RefreshOptions option \<Rightarrow> ('w, RefreshResult) io" where
  "refresh pf this opts =
     (let args = [''refresh'', ''--yes'', ''--skip-preview'']
      in bind_io (workspace_call (selectStack (stack_workspace this) (stack_name this))) (\<lambda>_.
         bind_io (Stack_runPulumiCmd pf this (refresh_options opts args) None) (\<lambda>refResult.
         bind_io (info pf this) (\<lambda>summary.
         return_io
           \<lparr>res_stdout = stdout refResult, res_stderr = stderr refResult,
            res_summary = summary\<rparr>))))"

definition destroy ::
  "'w Platform \<Rightarrow> 'w Stack \<Rightarrow> DestroyOptions option \<Rightarrow> ('w, DestroyResult) io" where
  "destroy pf this opts =
     (let args = [''destroy'', ''--yes'', ''--skip-preview'']
      in bind_io (workspace_call (selectStack (stack_workspace this) (stack_name this))) (\<lambda>_.
         bind_io (Stack_runPulumiCmd pf this (destroy_options opts args) None) (\<lambda>preResult.
         bind_io (info pf this) (\<lambda>summary.
         return_io
           \<lparr>res_stdout = stdout preResult, res_stderr = stderr preResult,
            res_summary = summary\<rparr>))))"

section \<open>The test language runtime\<close>

text \<open>
  A Go \<^verbatim>\<open>error\<close>: one made from a message, or \<^verbatim>\<open>errors.Wrapf(err, msg)\<close>, whose
  \<^verbatim>\<open>Error()\<close> is the message, a colon and the cause's.
\<close>

datatype go_error =
    New string
  | Wrapf go_error string

fun go_Error :: "go_error \<Rightarrow> string" where
  "go_Error (New msg) = msg"
| "go_Error (Wrapf err msg) = msg @ '': '' @ go_Error err"

record PluginInfo =
  Name :: string

record RunInfo =
  MonitorAddress :: string

datatype 'c ResourceMonitorClient = NewResourceMonitorClient 'c

record 'c ResourceMonitor =
  resmon :: "'c ResourceMonitorClient"
  rm_enableSecrets :: bool

text \<open>
  A \<^verbatim>\<open>ProgramFunc\<close> returns \<^verbatim>\<open>nil\<close> (\<open>None\<close>) or an error.
\<close>

record 'c languageRuntime =
  requiredPlugins :: "PluginInfo list"
  program :: "RunInfo \<Rightarrow> 'c ResourceMonitor \<Rightarrow> go_error option"
  enableSecrets :: bool

text \<open>
  \<^verbatim>\<open>Run\<close>, with \<^verbatim>\<open>grpc.Dial\<close> a parameter. The goroutine sends the program's result on
  the unbuffered channel \<^verbatim>\<open>done\<close> and \<^verbatim>\<open>Run\<close> receives it: \<open>done\<close> is the value that
  passes. The pair returned is the string and the error, \<open>None\<close> for \<^verbatim>\<open>nil\<close>.
\<close>

definition Run ::
  "(string \<Rightarrow> go_error + 'c) \<Rightarrow> 'c languageRuntime \<Rightarrow> RunInfo \<Rightarrow> string \<times> go_error option" where
  "Run grpc_Dial p runInfo =
     (case grpc_Dial (MonitorAddress runInfo) of
        Inl err \<Rightarrow> ([], Some (Wrapf err ''could not connect to resource monitor''))
      | Inr conn \<Rightarrow>
          (let resmon = NewResourceMonitorClient conn;
               done = program p runInfo \<lparr>resmon = resmon, rm_enableSecrets = enableSecrets p\<rparr>
           in case done of
                Some progerr \<Rightarrow> (go_Error progerr, None)
              | None \<Rightarrow> ([], None)))"

section \<open>Concrete collaborators\<close>

text \<open>
  A workspace without state of its own, where the stack already exists: creation fails,
  selection succeeds or fails as the first argument says, and the second argument is the
  registered program.
\<close>

definition test_workspace :: "bool \<Rightarrow> PulumiFn option \<Rightarrow> unit Workspace" where
  "test_workspace select_ok registered =
     \<lparr>createStack = (\<lambda>name w. (Inl (Error ''stack already exists''), w)),
      selectStack = (\<lambda>name w.
        (if select_ok then Inr () else Inl (Error ''no stack named dev found''), w)),
      getProgram = (\<lambda>w. registered),
      getPulumiHome = (\<lambda>w. None),
      getEnvVars = (\<lambda>w. (Inr Map.empty, w)),
      serializeArgsForOp = (\<lambda>name w. (Inr [], w)),
      getWorkDir = (\<lambda>w. ''/work''),
      postCommandCallback = (\<lambda>name w. (Inr (), w))\<rparr>"

text \<open>\<^verbatim>\<open>JSON.parse\<close> on the few texts the concrete endpoint prints.\<close>

definition test_JSON_parse :: "string \<Rightarrow> error + json" where
  \<open>test_JSON_parse text =
     (if text = ''[]'' then Inr (JArr [])
      else if text = ''{}'' then Inr (JObj [])
      else if text = ''[{"version":2},{"version":1}]'' then
        Inr (JArr [JObj [(''version'', JNum 2)], JObj [(''version'', JNum 1)]])
      else if text = ''{"__proto__":"[secret]"}'' then
        Inr (JObj [(''__proto__'', JStr ''[secret]'')])
      else if text = ''{"__proto__":"hunter2"}'' then
        Inr (JObj [(''__proto__'', JStr ''hunter2'')])
      else if text = ''{"url":"http://a","token":"[secret]"}'' then
        Inr (JObj [(''url'', JStr ''http://a''), (''token'', JStr ''[secret]'')])
      else if text = ''{"url":"http://a","token":"hunter2"}'' then
        Inr (JObj [(''url'', JStr ''http://a''), (''token'', JStr ''hunter2'')])
      else Inl (SyntaxError ''Unexpected token''))\<close>

text \<open>
  An endpoint that always succeeds and prints the first text for the history query, the
  second for the masked output query and the third for the plaintext one.
\<close>

definition test_platform :: "string \<Rightarrow> string \<Rightarrow> string \<Rightarrow> unit Platform" where
  "test_platform history_text masked_text plaintext_text =
     \<lparr>cmd_runPulumiCmd = (\<lambda>args cwd envs onOutput w.
        (Inr \<lparr>stdout =
                (if take 1 args = [''history''] then history_text
                 else if take 2 args = [''stack'', ''output''] then
                   (if ''--show-secrets'' \<in> set args then plaintext_text else masked_text)
                 else ''Updating''),
              stderr = []\<rparr>, w)),
      JSON_parse = test_JSON_parse\<rparr>"

definition test_stack :: "bool \<Rightarrow> PulumiFn option \<Rightarrow> unit Stack" where
  "test_stack select_ok registered =
     \<lparr>stack_ready = Inr (), stack_name = ''dev'',
      stack_workspace = test_workspace select_ok registered\<rparr>"

text \<open>The same stack in a workspace that serialises the given arguments for every command.\<close>

definition test_stack_with_args :: "string list \<Rightarrow> unit Stack" where
  "test_stack_with_args extra =
     \<lparr>stack_ready = Inr (), stack_name = ''dev'',
      stack_workspace =
        (test_workspace True None)\<lparr>serializeArgsForOp := (\<lambda>name w. (Inr extra, w))\<rparr>\<rparr>"

definition initial :: "unit sys" where
  "initial = \<lparr>world = (), invocations = []\<rparr>"

text \<open>The options object \<^verbatim>\<open>{}\<close> of each operation.\<close>

definition no_up_options :: UpOptions where
  "no_up_options =
     \<lparr>up_parallel = None, up_message = None, up_expectNoChanges = None, up_replace = None,
      up_target = None, up_targetDependents = None, up_onOutput = None, up_program = None\<rparr>"

definition no_preview_options :: PreviewOptions where
  "no_preview_options =
     \<lparr>pre_parallel = None, pre_message = None, pre_expectNoChanges = None, pre_replace = None,
      pre_target = None, pre_targetDependents = None, pre_program = None\<rparr>"

definition no_refresh_options :: RefreshOptions where
  "no_refresh_options =
     \<lparr>ref_parallel = None, ref_message = None, ref_expectNoChanges = None, ref_target = None,
      ref_onOutput = None\<rparr>"

definition no_destroy_options :: DestroyOptions where
  "no_destroy_options =
     \<lparr>des_parallel = None, des_message = None, des_target = None, des_targetDependents = None,
      des_onOutput = None\<rparr>"

text \<open>A dialer that reaches one address only, and a runtime whose program returns a given result.\<close>

definition test_Dial :: "string \<Rightarrow> go_error + nat" where
  "test_Dial address =
     (if address = ''127.0.0.1:4000'' then Inr 1 else Inl (New ''connection refused''))"

definition test_runtime :: "go_error option \<Rightarrow> nat languageRuntime" where
  "test_runtime outcome =
     \<lparr>requiredPlugins = [], program = (\<lambda>runInfo monitor. outcome), enableSecrets = False\<rparr>"

text \<open>
  An operation grows the record of the endpoint's calls when it only ever appends to it.
\<close>

definition grows :: "('w, 'a) io \<Rightarrow> bool" where
  "grows m = (\<forall>s. \<exists>rest. invocations (snd (m s)) = invocations s @ rest)"

section \<open>Evaluation on the concrete collaborators\<close>

text \<open>The definitions that evaluate an operation on the concrete collaborators.\<close>

lemmas test_defs = test_platform_def test_stack_def test_workspace_def initial_def
  test_JSON_parse_def no_up_options_def no_preview_options_def no_refresh_options_def
  no_destroy_options_def

lemmas run_defs = up_def preview_def refresh_def destroy_def outputs_def info_def history_def
  Stack_runPulumiCmd_def invoke_runPulumiCmd_def workspace_call_def bind_io_def return_io_def
  throw_io_def promise_all2_def reconcile_def inline_program_check_def up_options_def
  preview_options_def refresh_options_def destroy_options_def push_message_def
  push_switch_def push_urns_def push_parallel_def truthy_string_def truthy_boolean_def
  truthy_number_def execKind_local_def execKind_inline_def OutputMap_assign_def
  secretSentinal_def number_toString_def array_index_def Let_def

section \<open>Translation of the options into flags\<close>

lemma push_each_append:
  "push_each flag urns args = args @ concat (map (\<lambda>urn. [flag, urn]) urns)"
  by (induction urns arbitrary: args) simp_all

lemma push_message_flags:
  "push_message message args =
     args @ (case message of None \<Rightarrow> [] | Some m \<Rightarrow> if m = [] then [] else [''--message'', m])"
  by (simp add: push_message_def truthy_string_def split: option.splits)

lemma push_switch_flags:
  "push_switch flag field args = args @ (if field = Some True then [flag] else [])"
  by (simp add: push_switch_def truthy_boolean_def split: option.splits)

lemma push_urns_flags:
  "push_urns flag field args =
     args @ (case field of None \<Rightarrow> [] | Some urns \<Rightarrow> concat (map (\<lambda>urn. [flag, urn]) urns))"
  by (simp add: push_urns_def push_each_append split: option.splits)

lemma push_parallel_flags:
  "push_parallel parallel args =
     args @ (case parallel of
               None \<Rightarrow> []
             | Some n \<Rightarrow> if n = 0 then [] else [''--parallel'', number_toString n])"
  by (simp add: push_parallel_def truthy_number_def split: option.splits)

lemmas push_flags = push_message_flags push_switch_flags push_urns_flags push_parallel_flags

text \<open>
  Claim C5. In each of the four operations the options block appends to the argument list
  the flags of \<^verbatim>\<open>message\<close>, \<^verbatim>\<open>expectNoChanges\<close>, \<^verbatim>\<open>replace\<close>, \<^verbatim>\<open>target\<close>,
  \<^verbatim>\<open>targetDependents\<close> and \<^verbatim>\<open>parallel\<close>, in this order and restricted to the fields the
  operation has. An absent field appends nothing, and so does an absent options object.
  \<^verbatim>\<open>replace\<close> and \<^verbatim>\<open>target\<close> append their flag once per element, in the order of the
  elements. With \<^verbatim>\<open>target = ["urn:a", "urn:b"]\<close> alone, \<^verbatim>\<open>up\<close> builds its three fixed
  arguments followed by \<^verbatim>\<open>--target urn:a --target urn:b\<close> and no other option flag.
\<close>

theorem option_flags_fixed_order:
  "snd (up_options (Some uo) (p, args)) =
     args
     @ (case up_message uo of None \<Rightarrow> [] | Some m \<Rightarrow> if m = [] then [] else [''--message'', m])
     @ (if up_expectNoChanges uo = Some True then [''--expect-no-changes''] else [])
     @ (case up_replace uo of
          None \<Rightarrow> [] | Some urns \<Rightarrow> concat (map (\<lambda>urn. [''--replace'', urn]) urns))
     @ (case up_target uo of
          None \<Rightarrow> [] | Some urns \<Rightarrow> concat (map (\<lambda>urn. [''--target'', urn]) urns))
     @ (if up_targetDependents uo = Some True then [''--target-dependents''] else [])
     @ (case up_parallel uo of
          None \<Rightarrow> [] | Some n \<Rightarrow> if n = 0 then [] else [''--parallel'', number_toString n])
   \<and> snd (preview_options (Some po) (p, args)) =
     args
     @ (case pre_message po of None \<Rightarrow> [] | Some m \<Rightarrow> if m = [] then [] else [''--message'', m])
     @ (if pre_expectNoChanges po = Some True then [''--expect-no-changes''] else [])
     @ (case pre_replace po of
          None \<Rightarrow> [] | Some urns \<Rightarrow> concat (map (\<lambda>urn. [''--replace'', urn]) urns))
     @ (case pre_target po of
          None \<Rightarrow> [] | Some urns \<Rightarrow> concat (map (\<lambda>urn. [''--target'', urn]) urns))
     @ (if pre_targetDependents po = Some True then [''--target-dependents''] else [])
     @ (case pre_parallel po of
          None \<Rightarrow> [] | Some n \<Rightarrow> if n = 0 then [] else [''--parallel'', number_toString n])
   \<and> refresh_options (Some ro) args =
     args
     @ (case ref_message ro of None \<Rightarrow> [] | Some m \<Rightarrow> if m = [] then [] else [''--message'', m])
     @ (if ref_expectNoChanges ro = Some True then [''--expect-no-changes''] else [])
     @ (case ref_target ro of
          None \<Rightarrow> [] | Some urns \<Rightarrow> concat (map (\<lambda>urn. [''--target'', urn]) urns))
     @ (case ref_parallel ro of
          None \<Rightarrow> [] | Some n \<Rightarrow> if n = 0 then [] else [''--parallel'', number_toString n])
   \<and> destroy_options (Some dopt) args =
     args
     @ (case des_message dopt of None \<Rightarrow> [] | Some m \<Rightarrow> if m = [] then [] else [''--message'', m])
     @ (case des_target dopt of
          None \<Rightarrow> [] | Some urns \<Rightarrow> concat (map (\<lambda>urn. [''--target'', urn]) urns))
     @ (if des_targetDependents dopt = Some True then [''--target-dependents''] else [])
     @ (case des_parallel dopt of
          None \<Rightarrow> [] | Some n \<Rightarrow> if n = 0 then [] else [''--parallel'', number_toString n])
   \<and> snd (up_options None (p, args)) = args
   \<and> snd (preview_options None (p, args)) = args
   \<and> refresh_options None args = args
   \<and> destroy_options None args = args
   \<and> snd (up_options
             (Some \<lparr>up_parallel = None, up_message = None, up_expectNoChanges = None,
                    up_replace = None, up_target = Some [''urn:a'', ''urn:b''],
                    up_targetDependents = None, up_onOutput = None, up_program = None\<rparr>)
             (None, [''up'', ''--yes'', ''--skip-preview''])) =
       [''up'', ''--yes'', ''--skip-preview'', ''--target'', ''urn:a'', ''--target'', ''urn:b'']"
  by (simp add: up_options_def preview_options_def refresh_options_def destroy_options_def
      Let_def push_flags)

text \<open>The translation at an options object with four fields set, and at the example of C5.\<close>

theorem option_flags_fixed_order_witness:
  "snd (up_options
          (Some (no_up_options\<lparr>up_message := Some ''ship'', up_replace := Some [''urn:r''],
                   up_target := Some [''urn:a'', ''urn:b''], up_parallel := Some 4\<rparr>))
          (None, [''up'', ''--yes'', ''--skip-preview''])) =
     [''up'', ''--yes'', ''--skip-preview'', ''--message'', ''ship'', ''--replace'', ''urn:r'',
      ''--target'', ''urn:a'', ''--target'', ''urn:b'', ''--parallel'', ''4'']
   \<and> refresh_options (Some (no_refresh_options\<lparr>ref_target := Some [''urn:a'', ''urn:b'']\<rparr>))
       [''refresh'', ''--yes'', ''--skip-preview''] =
     [''refresh'', ''--yes'', ''--skip-preview'', ''--target'', ''urn:a'', ''--target'', ''urn:b'']"
  using option_flags_fixed_order
    [where uo = "no_up_options\<lparr>up_message := Some ''ship'', up_replace := Some [''urn:r''],
           up_target := Some [''urn:a'', ''urn:b''], up_parallel := Some 4\<rparr>"
       and p = None and args = "[''up'', ''--yes'', ''--skip-preview'']"
       and po = no_preview_options and ro = no_refresh_options and dopt = no_destroy_options]
    option_flags_fixed_order
    [where uo = no_up_options and p = None and args = "[''refresh'', ''--yes'', ''--skip-preview'']"
       and po = no_preview_options
       and ro = "no_refresh_options\<lparr>ref_target := Some [''urn:a'', ''urn:b'']\<rparr>"
       and dopt = no_destroy_options]
  by (simp add: no_up_options_def no_refresh_options_def number_toString_def)

text \<open>
  Claim C10. An option that is present with a falsy value, \<^verbatim>\<open>parallel\<close> zero, \<^verbatim>\<open>message\<close>
  the empty string, \<^verbatim>\<open>expectNoChanges\<close> or \<^verbatim>\<open>targetDependents\<close> false, leaves every
  lifecycle operation exactly what it is when the option is absent.
\<close>

theorem falsy_option_is_absent:
  "up pf this (Some (uo\<lparr>up_parallel := Some 0\<rparr>)) = up pf this (Some (uo\<lparr>up_parallel := None\<rparr>))
   \<and> up pf this (Some (uo\<lparr>up_message := Some []\<rparr>)) = up pf this (Some (uo\<lparr>up_message := None\<rparr>))
   \<and> up pf this (Some (uo\<lparr>up_expectNoChanges := Some False\<rparr>)) =
       up pf this (Some (uo\<lparr>up_expectNoChanges := None\<rparr>))
   \<and> up pf this (Some (uo\<lparr>up_targetDependents := Some False\<rparr>)) =
       up pf this (Some (uo\<lparr>up_targetDependents := None\<rparr>))
   \<and> preview pf this (Some (po\<lparr>pre_parallel := Some 0\<rparr>)) =
       preview pf this (Some (po\<lparr>pre_parallel := None\<rparr>))
   \<and> preview pf this (Some (po\<lparr>pre_message := Some []\<rparr>)) =
       preview pf this (Some (po\<lparr>pre_message := None\<rparr>))
   \<and> preview pf this (Some (po\<lparr>pre_expectNoChanges := Some False\<rparr>)) =
       preview pf this (Some (po\<lparr>pre_expectNoChanges := None\<rparr>))
   \<and> preview pf this (Some (po\<lparr>pre_targetDependents := Some False\<rparr>)) =
       preview pf this (Some (po\<lparr>pre_targetDependents := None\<rparr>))
   \<and> refresh pf this (Some (ro\<lparr>ref_parallel := Some 0\<rparr>)) =
       refresh pf this (Some (ro\<lparr>ref_parallel := None\<rparr>))
   \<and> refresh pf this (Some (ro\<lparr>ref_message := Some []\<rparr>)) =
       refresh pf this (Some (ro\<lparr>ref_message := None\<rparr>))
   \<and> refresh pf this (Some (ro\<lparr>ref_expectNoChanges := Some False\<rparr>)) =
       refresh pf this (Some (ro\<lparr>ref_expectNoChanges := None\<rparr>))
   \<and> destroy pf this (Some (dopt\<lparr>des_parallel := Some 0\<rparr>)) =
       destroy pf this (Some (dopt\<lparr>des_parallel := None\<rparr>))
   \<and> destroy pf this (Some (dopt\<lparr>des_message := Some []\<rparr>)) =
       destroy pf this (Some (dopt\<lparr>des_message := None\<rparr>))
   \<and> destroy pf this (Some (dopt\<lparr>des_targetDependents := Some False\<rparr>)) =
       destroy pf this (Some (dopt\<lparr>des_targetDependents := None\<rparr>))"
  by (simp add: fun_eq_iff up_def preview_def refresh_def destroy_def
      up_options_def preview_options_def refresh_options_def destroy_options_def
      Let_def push_flags)

text \<open>C10 at the concrete collaborators.\<close>

theorem falsy_option_is_absent_witness:
  "up (test_platform ''[]'' ''{}'' ''{}'') (test_stack True None)
      (Some (no_up_options\<lparr>up_parallel := Some 0\<rparr>)) initial =
   up (test_platform ''[]'' ''{}'' ''{}'') (test_stack True None) (Some no_up_options) initial
   \<and> destroy (test_platform ''[]'' ''{}'' ''{}'') (test_stack True None)
      (Some (no_destroy_options\<lparr>des_message := Some []\<rparr>)) initial =
   destroy (test_platform ''[]'' ''{}'' ''{}'') (test_stack True None)
      (Some no_destroy_options) initial"
  using falsy_option_is_absent
    [where pf = "test_platform ''[]'' ''{}'' ''{}''" and this = "test_stack True None"
       and uo = no_up_options and po = no_preview_options and ro = no_refresh_options
       and dopt = no_destroy_options]
  by (simp add: no_up_options_def no_destroy_options_def)

section \<open>The calls of the command execution endpoint\<close>

text \<open>No operation removes a call from the record of the endpoint's calls.\<close>

lemma growsD: "grows m \<Longrightarrow> m s = (r, s') \<Longrightarrow> \<exists>rest. invocations s' = invocations s @ rest"
  by (auto simp: grows_def dest: spec [of _ s])

lemma grows_return [simp]: "grows (return_io x)"
  by (simp add: grows_def return_io_def)

lemma grows_throw [simp]: "grows (throw_io e)"
  by (simp add: grows_def throw_io_def)

lemma grows_workspace_call [simp]: "grows (workspace_call f)"
  by (simp add: grows_def workspace_call_def split: prod.splits)

lemma grows_invoke [simp]: "grows (invoke_runPulumiCmd pf ws args envs cb)"
  by (simp add: grows_def invoke_runPulumiCmd_def split: prod.splits)

lemma grows_bind:
  assumes m: "grows m" and f: "\<And>x. grows (f x)"
  shows "grows (bind_io m f)"
  unfolding grows_def
proof
  fix s
  obtain r s1 where ms: "m s = (r, s1)" by (cases "m s")
  from growsD [OF m ms] obtain rest1 where p1: "invocations s1 = invocations s @ rest1" ..
  show "\<exists>rest. invocations (snd (bind_io m f s)) = invocations s @ rest"
  proof (cases r)
    case (Inl e)
    with ms p1 show ?thesis by (simp add: bind_io_def)
  next
    case (Inr x)
    obtain r2 s2 where fs: "f x s1 = (r2, s2)" by (cases "f x s1")
    from growsD [OF f fs] obtain rest2 where "invocations s2 = invocations s1 @ rest2" ..
    with p1 ms Inr fs show ?thesis by (simp add: bind_io_def)
  qed
qed

lemma grows_promise_all2:
  assumes m1: "grows m1" and m2: "grows m2"
  shows "grows (promise_all2 m1 m2)"
  unfolding grows_def
proof
  fix s
  obtain r1 s1 where a: "m1 s = (r1, s1)" by (cases "m1 s")
  obtain r2 s2 where b: "m2 s1 = (r2, s2)" by (cases "m2 s1")
  from growsD [OF m1 a] obtain rest1 where "invocations s1 = invocations s @ rest1" ..
  moreover from growsD [OF m2 b] obtain rest2 where "invocations s2 = invocations s1 @ rest2" ..
  ultimately have "invocations s2 = invocations s @ (rest1 @ rest2)" by simp
  moreover have "snd (promise_all2 m1 m2 s) = s2"
    using a b by (simp add: promise_all2_def split: sum.splits)
  ultimately show "\<exists>rest. invocations (snd (promise_all2 m1 m2 s)) = invocations s @ rest"
    by blast
qed

lemma grows_Stack_runPulumiCmd [simp]: "grows (Stack_runPulumiCmd pf this args cb)"
  unfolding grows_def
proof
  fix s
  let ?ws = "stack_workspace this"
  obtain envs where run: "Stack_runPulumiCmd pf this args cb s =
     bind_io (workspace_call (getEnvVars ?ws)) (\<lambda>additionalEnvs.
       bind_io (workspace_call (serializeArgsForOp ?ws (stack_name this))) (\<lambda>additionalArgs.
       bind_io (invoke_runPulumiCmd pf ?ws (args @ additionalArgs) (envs ++ additionalEnvs)
                  cb) (\<lambda>result.
       bind_io (workspace_call (postCommandCallback ?ws (stack_name this))) (\<lambda>_.
       return_io result)))) s"
    by (simp add: Stack_runPulumiCmd_def Let_def)
  have "grows (bind_io (workspace_call (getEnvVars ?ws)) (\<lambda>additionalEnvs.
       bind_io (workspace_call (serializeArgsForOp ?ws (stack_name this))) (\<lambda>additionalArgs.
       bind_io (invoke_runPulumiCmd pf ?ws (args @ additionalArgs) (envs ++ additionalEnvs)
                  cb) (\<lambda>result.
       bind_io (workspace_call (postCommandCallback ?ws (stack_name this))) (\<lambda>_.
       return_io result)))))"
    by (intro grows_bind) simp_all
  then show "\<exists>rest. invocations (snd (Stack_runPulumiCmd pf this args cb s)) = invocations s @ rest"
    unfolding run by (simp add: grows_def)
qed

lemma grows_history [simp]: "grows (history pf this)"
  unfolding history_def by (intro grows_bind) (simp_all split: sum.splits)

lemma grows_info [simp]: "grows (info pf this)"
  unfolding info_def by (intro grows_bind) (simp_all split: sum.splits)

lemma grows_outputs [simp]: "grows (outputs pf this)"
  unfolding outputs_def by (intro grows_bind grows_promise_all2) (simp_all split: sum.splits)

text \<open>
  The private method calls the endpoint at most once, with its arguments followed by those
  the workspace serialises, and it resolves only when it has called it.
\<close>

lemma Stack_runPulumiCmd_invocations:
  assumes "Stack_runPulumiCmd pf this args cb s = (r, s')"
  shows "(invocations s' = invocations s \<and> (\<exists>e. r = Inl e))
       \<or> (\<exists>extra. invocations s' = invocations s @ [args @ extra])"
  using assms
  by (auto simp: Stack_runPulumiCmd_def Let_def bind_io_def workspace_call_def
      invoke_runPulumiCmd_def return_io_def split: prod.splits sum.splits)

lemma first_invocation:
  assumes run: "bind_io (Stack_runPulumiCmd pf this args cb) k s = (r, s')"
    and k: "\<And>x. grows (k x)"
  shows "(invocations s' = invocations s \<and> (\<exists>e. r = Inl e))
       \<or> (\<exists>extra rest. invocations s' = invocations s @ (args @ extra) # rest)"
proof -
  obtain r1 s1 where a: "Stack_runPulumiCmd pf this args cb s = (r1, s1)"
    by (cases "Stack_runPulumiCmd pf this args cb s")
  show ?thesis
  proof (cases r1)
    case (Inl e)
    with a run have "r = Inl e" "s' = s1" by (simp_all add: bind_io_def)
    with Stack_runPulumiCmd_invocations [OF a] show ?thesis by auto
  next
    case (Inr x)
    with Stack_runPulumiCmd_invocations [OF a]
    obtain extra where e: "invocations s1 = invocations s @ [args @ extra]" by auto
    from a Inr run have "k x s1 = (r, s')" by (simp add: bind_io_def)
    from growsD [OF k this] obtain rest where "invocations s' = invocations s1 @ rest" ..
    with e show ?thesis by auto
  qed
qed

lemma select_then_run:
  assumes op: "bind_io (workspace_call f) (\<lambda>_. bind_io (Stack_runPulumiCmd pf this args cb) k) s
                 = (r, s')"
    and k: "\<And>x. grows (k x)"
  shows "(invocations s' = invocations s \<and> (\<exists>e. r = Inl e))
       \<or> (\<exists>extra rest. invocations s' = invocations s @ (args @ extra) # rest)"
proof -
  obtain r1 s1 where a: "workspace_call f s = (r1, s1)" by (cases "workspace_call f s")
  then have i: "invocations s1 = invocations s"
    by (auto simp: workspace_call_def split: prod.splits)
  show ?thesis
  proof (cases r1)
    case (Inl e)
    with a op have "r = Inl e" "s' = s1" by (simp_all add: bind_io_def)
    with i show ?thesis by simp
  next
    case (Inr u)
    with a op have "bind_io (Stack_runPulumiCmd pf this args cb) k s1 = (r, s')"
      by (simp add: bind_io_def)
    from first_invocation [OF this k] i show ?thesis by simp
  qed
qed

lemma select_then_throw:
  assumes "bind_io (workspace_call f) (\<lambda>_. throw_io err) s = (r, s')"
  shows "invocations s' = invocations s \<and> (\<exists>e. r = Inl e)"
  using assms
  by (auto simp: bind_io_def workspace_call_def throw_io_def split: prod.splits sum.splits)

lemma select_then_throw_result:
  "bind_io (workspace_call f) (\<lambda>_. throw_io err) s =
     (case f (world s) of
        (Inl e, w) \<Rightarrow> (Inl e, s\<lparr>world := w\<rparr>)
      | (Inr u, w) \<Rightarrow> (Inl err, s\<lparr>world := w\<rparr>))"
  by (simp add: bind_io_def workspace_call_def throw_io_def split: prod.splits sum.splits)

lemma up_options_args:
  "snd (up_options opts (p, args)) = args @ snd (up_options opts (None, []))"
  by (cases opts) (simp_all add: up_options_def Let_def push_flags)

lemma preview_options_args:
  "snd (preview_options opts (p, args)) = args @ snd (preview_options opts (None, []))"
  by (cases opts) (simp_all add: preview_options_def Let_def push_flags)

lemma refresh_options_args: "refresh_options opts args = args @ refresh_options opts []"
  by (cases opts) (simp_all add: refresh_options_def Let_def push_flags)

lemma destroy_options_args: "destroy_options opts args = args @ destroy_options opts []"
  by (cases opts) (simp_all add: destroy_options_def Let_def push_flags)

lemma up_effective_program:
  "fst (up_options opts (p, args)) =
     (case opts of
        None \<Rightarrow> p
      | Some opt \<Rightarrow> (case up_program opt of Some f \<Rightarrow> Some f | None \<Rightarrow> p))"
  by (cases opts) (simp_all add: up_options_def Let_def split: option.splits)

lemma preview_effective_program:
  "fst (preview_options opts (p, args)) =
     (case opts of
        None \<Rightarrow> p
      | Some opt \<Rightarrow> (case pre_program opt of Some f \<Rightarrow> Some f | None \<Rightarrow> p))"
  by (cases opts) (simp_all add: preview_options_def Let_def split: option.splits)

text \<open>The two paths of \<^verbatim>\<open>up\<close> and \<^verbatim>\<open>preview\<close>, and the other operations, as one sequence.\<close>

lemma up_inline:
  assumes "fst (up_options opts (getProgram (stack_workspace this) (world s),
             [''up'', ''--yes'', ''--skip-preview''])) = Some f"
  shows "up pf this opts s =
     bind_io (workspace_call (selectStack (stack_workspace this) (stack_name this)))
       (\<lambda>_. throw_io (Error ''NYI: inline programs'')) s"
proof -
  let ?p = "getProgram (stack_workspace this) (world s)"
  let ?base = "[''up'', ''--yes'', ''--skip-preview'']"
  obtain prog args where o: "up_options opts (?p, ?base) = (prog, args)"
    by (cases "up_options opts (?p, ?base)")
  with assms have "prog = Some f" by simp
  then show ?thesis
    using o by (simp add: up_def Let_def inline_program_check_def)
qed

lemma up_local:
  assumes "fst (up_options opts (getProgram (stack_workspace this) (world s),
             [''up'', ''--yes'', ''--skip-preview''])) = None"
  shows "up pf this opts s =
     bind_io (workspace_call (selectStack (stack_workspace this) (stack_name this)))
       (\<lambda>_. bind_io (Stack_runPulumiCmd pf this
                ([''up'', ''--yes'', ''--skip-preview''] @ snd (up_options opts (None, []))
                  @ [''--exec-kind'', ''auto.local''])
                (case opts of None \<Rightarrow> None | Some opt \<Rightarrow> up_onOutput opt))
          (\<lambda>upResult.
             bind_io (promise_all2 (info pf this) (outputs pf this)) (\<lambda>status.
             return_io
               \<lparr>up_stdout = stdout upResult, up_stderr = stderr upResult,
                up_outputs = snd status, up_summary = fst status\<rparr>))) s"
proof -
  let ?p = "getProgram (stack_workspace this) (world s)"
  let ?base = "[''up'', ''--yes'', ''--skip-preview'']"
  obtain prog args where o: "up_options opts (?p, ?base) = (prog, args)"
    by (cases "up_options opts (?p, ?base)")
  with assms have "prog = None" by simp
  moreover from o have "args = ?base @ snd (up_options opts (None, []))"
    using up_options_args [of opts ?p ?base] by simp
  ultimately show ?thesis
    using o by (simp add: up_def Let_def inline_program_check_def execKind_local_def)
qed

lemma preview_inline:
  assumes "fst (preview_options opts (getProgram (stack_workspace this) (world s),
             [''preview''])) = Some f"
  shows "preview pf this opts s =
     bind_io (workspace_call (selectStack (stack_workspace this) (stack_name this)))
       (\<lambda>_. throw_io (Error ''NYI: inline programs'')) s"
proof -
  let ?p = "getProgram (stack_workspace this) (world s)"
  let ?base = "[''preview'']"
  obtain prog args where o: "preview_options opts (?p, ?base) = (prog, args)"
    by (cases "preview_options opts (?p, ?base)")
  with assms have "prog = Some f" by simp
  then show ?thesis
    using o by (simp add: preview_def Let_def inline_program_check_def)
qed

lemma preview_local:
  assumes "fst (preview_options opts (getProgram (stack_workspace this) (world s),
             [''preview''])) = None"
  shows "preview pf this opts s =
     bind_io (workspace_call (selectStack (stack_workspace this) (stack_name this)))
       (\<lambda>_. bind_io (Stack_runPulumiCmd pf this
                ([''preview''] @ snd (preview_options opts (None, []))
                  @ [''--exec-kind'', ''auto.local'']) None)
          (\<lambda>preResult.
             bind_io (info pf this) (\<lambda>summary.
             return_io
               \<lparr>res_stdout = stdout preResult, res_stderr = stderr preResult,
                res_summary = summary\<rparr>))) s"
proof -
  let ?p = "getProgram (stack_workspace this) (world s)"
  let ?base = "[''preview'']"
  obtain prog args where o: "preview_options opts (?p, ?base) = (prog, args)"
    by (cases "preview_options opts (?p, ?base)")
  with assms have "prog = None" by simp
  moreover from o have "args = ?base @ snd (preview_options opts (None, []))"
    using preview_options_args [of opts ?p ?base] by simp
  ultimately show ?thesis
    using o by (simp add: preview_def Let_def inline_program_check_def execKind_local_def)
qed

lemma refresh_unfold:
  "refresh pf this opts =
     bind_io (workspace_call (selectStack (stack_workspace this) (stack_name this)))
       (\<lambda>_. bind_io (Stack_runPulumiCmd pf this
                ([''refresh'', ''--yes'', ''--skip-preview''] @ refresh_options opts []) None)
          (\<lambda>refResult.
             bind_io (info pf this) (\<lambda>summary.
             return_io
               \<lparr>res_stdout = stdout refResult, res_stderr = stderr refResult,
                res_summary = summary\<rparr>)))"
  using refresh_options_args [of opts "[''refresh'', ''--yes'', ''--skip-preview'']"]
  by (simp add: refresh_def Let_def)

lemma destroy_unfold:
  "destroy pf this opts =
     bind_io (workspace_call (selectStack (stack_workspace this) (stack_name this)))
       (\<lambda>_. bind_io (Stack_runPulumiCmd pf this
                ([''destroy'', ''--yes'', ''--skip-preview''] @ destroy_options opts []) None)
          (\<lambda>preResult.
             bind_io (info pf this) (\<lambda>summary.
             return_io
               \<lparr>res_stdout = stdout preResult, res_stderr = stderr preResult,
                res_summary = summary\<rparr>)))"
  using destroy_options_args [of opts "[''destroy'', ''--yes'', ''--skip-preview'']"]
  by (simp add: destroy_def Let_def)

text \<open>
  Whatever the collaborators do, an operation either rejects without a call of the endpoint
  or its first call has the operation's arguments.
\<close>

lemma lifecycle_first_call_shape:
  "(case up pf this uopts s of (r, s') \<Rightarrow>
      (invocations s' = invocations s \<and> (\<exists>e. r = Inl e))
      \<or> (\<exists>extra rest. invocations s' = invocations s @
            ([''up'', ''--yes'', ''--skip-preview''] @ snd (up_options uopts (None, []))
              @ [''--exec-kind'', ''auto.local''] @ extra) # rest))
   \<and> (case preview pf this popts s of (r, s') \<Rightarrow>
      (invocations s' = invocations s \<and> (\<exists>e. r = Inl e))
      \<or> (\<exists>extra rest. invocations s' = invocations s @
            ([''preview''] @ snd (preview_options popts (None, []))
              @ [''--exec-kind'', ''auto.local''] @ extra) # rest))
   \<and> (case refresh pf this ropts s of (r, s') \<Rightarrow>
      (invocations s' = invocations s \<and> (\<exists>e. r = Inl e))
      \<or> (\<exists>extra rest. invocations s' = invocations s @
            ([''refresh'', ''--yes'', ''--skip-preview''] @ refresh_options ropts [] @ extra)
            # rest))
   \<and> (case destroy pf this dopts s of (r, s') \<Rightarrow>
      (invocations s' = invocations s \<and> (\<exists>e. r = Inl e))
      \<or> (\<exists>extra rest. invocations s' = invocations s @
            ([''destroy'', ''--yes'', ''--skip-preview''] @ destroy_options dopts [] @ extra)
            # rest))"
proof (intro conjI)
  obtain r s' where u: "up pf this uopts s = (r, s')" by (cases "up pf this uopts s")
  let ?e = "fst (up_options uopts (getProgram (stack_workspace this) (world s),
             [''up'', ''--yes'', ''--skip-preview'']))"
  have "(invocations s' = invocations s \<and> (\<exists>e. r = Inl e))
      \<or> (\<exists>extra rest. invocations s' = invocations s @
            ([''up'', ''--yes'', ''--skip-preview''] @ snd (up_options uopts (None, []))
              @ [''--exec-kind'', ''auto.local''] @ extra) # rest)"
  proof (cases ?e)
    case None
    from u [unfolded up_local [OF None]]
    have "(invocations s' = invocations s \<and> (\<exists>e. r = Inl e))
      \<or> (\<exists>extra rest. invocations s' = invocations s @
            (([''up'', ''--yes'', ''--skip-preview''] @ snd (up_options uopts (None, []))
              @ [''--exec-kind'', ''auto.local'']) @ extra) # rest)"
      by (rule select_then_run) (simp add: grows_bind grows_promise_all2)
    then show ?thesis by simp
  next
    case (Some f)
    from select_then_throw [OF u [unfolded up_inline [OF Some]]] show ?thesis by simp
  qed
  with u show "case up pf this uopts s of (r, s') \<Rightarrow>
      (invocations s' = invocations s \<and> (\<exists>e. r = Inl e))
      \<or> (\<exists>extra rest. invocations s' = invocations s @
            ([''up'', ''--yes'', ''--skip-preview''] @ snd (up_options uopts (None, []))
              @ [''--exec-kind'', ''auto.local''] @ extra) # rest)" by simp
next
  obtain r s' where u: "preview pf this popts s = (r, s')" by (cases "preview pf this popts s")
  let ?e = "fst (preview_options popts (getProgram (stack_workspace this) (world s),
             [''preview'']))"
  have "(invocations s' = invocations s \<and> (\<exists>e. r = Inl e))
      \<or> (\<exists>extra rest. invocations s' = invocations s @
            ([''preview''] @ snd (preview_options popts (None, []))
              @ [''--exec-kind'', ''auto.local''] @ extra) # rest)"
  proof (cases ?e)
    case None
    from u [unfolded preview_local [OF None]]
    have "(invocations s' = invocations s \<and> (\<exists>e. r = Inl e))
      \<or> (\<exists>extra rest. invocations s' = invocations s @
            (([''preview''] @ snd (preview_options popts (None, []))
              @ [''--exec-kind'', ''auto.local'']) @ extra) # rest)"
      by (rule select_then_run) (simp add: grows_bind)
    then show ?thesis by simp
  next
    case (Some f)
    from select_then_throw [OF u [unfolded preview_inline [OF Some]]] show ?thesis by simp
  qed
  with u show "case preview pf this popts s of (r, s') \<Rightarrow>
      (invocations s' = invocations s \<and> (\<exists>e. r = Inl e))
      \<or> (\<exists>extra rest. invocations s' = invocations s @
            ([''preview''] @ snd (preview_options popts (None, []))
              @ [''--exec-kind'', ''auto.local''] @ extra) # rest)" by simp
next
  obtain r s' where u: "refresh pf this ropts s = (r, s')" by (cases "refresh pf this ropts s")
  from u [unfolded refresh_unfold]
  have "(invocations s' = invocations s \<and> (\<exists>e. r = Inl e))
      \<or> (\<exists>extra rest. invocations s' = invocations s @
            (([''refresh'', ''--yes'', ''--skip-preview''] @ refresh_options ropts []) @ extra)
            # rest)"
    by (rule select_then_run) (simp add: grows_bind)
  with u show "case refresh pf this ropts s of (r, s') \<Rightarrow>
      (invocations s' = invocations s \<and> (\<exists>e. r = Inl e))
      \<or> (\<exists>extra rest. invocations s' = invocations s @
            ([''refresh'', ''--yes'', ''--skip-preview''] @ refresh_options ropts [] @ extra)
            # rest)" by simp
next
  obtain r s' where u: "destroy pf this dopts s = (r, s')" by (cases "destroy pf this dopts s")
  from u [unfolded destroy_unfold]
  have "(invocations s' = invocations s \<and> (\<exists>e. r = Inl e))
      \<or> (\<exists>extra rest. invocations s' = invocations s @
            (([''destroy'', ''--yes'', ''--skip-preview''] @ destroy_options dopts []) @ extra)
            # rest)"
    by (rule select_then_run) (simp add: grows_bind)
  with u show "case destroy pf this dopts s of (r, s') \<Rightarrow>
      (invocations s' = invocations s \<and> (\<exists>e. r = Inl e))
      \<or> (\<exists>extra rest. invocations s' = invocations s @
            ([''destroy'', ''--yes'', ''--skip-preview''] @ destroy_options dopts [] @ extra)
            # rest)" by simp
qed

text \<open>
  Once the workspace has given the environment and the serialised arguments, the private
  method does call the endpoint, with its arguments followed by the serialised ones.
\<close>

lemma Stack_runPulumiCmd_called:
  assumes "getEnvVars (stack_workspace this) (world s) = (Inr envs, w_env)"
    and "serializeArgsForOp (stack_workspace this) (stack_name this) w_env = (Inr extra, w_args)"
  shows "invocations (snd (Stack_runPulumiCmd pf this args cb s)) = invocations s @ [args @ extra]"
  using assms
  by (simp add: Stack_runPulumiCmd_def Let_def bind_io_def workspace_call_def
      invoke_runPulumiCmd_def return_io_def split: prod.splits sum.splits)

lemma select_then_run_called:
  assumes sel: "f (world s) = (Inr u, w_sel)"
    and env: "getEnvVars (stack_workspace this) w_sel = (Inr envs, w_env)"
    and ser: "serializeArgsForOp (stack_workspace this) (stack_name this) w_env
                = (Inr extra, w_args)"
    and k: "\<And>x. grows (k x)"
  shows "\<exists>rest. invocations (snd (bind_io (workspace_call f)
            (\<lambda>_. bind_io (Stack_runPulumiCmd pf this args cb) k) s))
          = invocations s @ (args @ extra) # rest"
proof -
  let ?s1 = "s\<lparr>world := w_sel\<rparr>"
  obtain r s2 where run: "Stack_runPulumiCmd pf this args cb ?s1 = (r, s2)"
    by (cases "Stack_runPulumiCmd pf this args cb ?s1")
  have "invocations (snd (Stack_runPulumiCmd pf this args cb ?s1))
          = invocations ?s1 @ [args @ extra]"
    by (rule Stack_runPulumiCmd_called [where envs = envs and w_env = w_env and w_args = w_args])
       (simp_all add: env ser)
  with run have i2: "invocations s2 = invocations s @ [args @ extra]" by simp
  have whole: "bind_io (workspace_call f)
            (\<lambda>_. bind_io (Stack_runPulumiCmd pf this args cb) k) s
          = bind_io (Stack_runPulumiCmd pf this args cb) k ?s1"
    using sel by (simp add: bind_io_def workspace_call_def)
  show ?thesis
  proof (cases r)
    case (Inl e)
    with run i2 show ?thesis unfolding whole by (simp add: bind_io_def)
  next
    case (Inr x)
    obtain r3 s3 where kx: "k x s2 = (r3, s3)" by (cases "k x s2")
    from growsD [OF k kx] obtain rest where "invocations s3 = invocations s2 @ rest" ..
    with run Inr kx i2 show ?thesis unfolding whole by (simp add: bind_io_def)
  qed
qed

text \<open>
  Claim C6. The first argument list a lifecycle operation gives the command execution
  endpoint is the operation's fixed arguments, \<^verbatim>\<open>up --yes --skip-preview\<close>, \<^verbatim>\<open>preview\<close>,
  \<^verbatim>\<open>refresh --yes --skip-preview\<close> or \<^verbatim>\<open>destroy --yes --skip-preview\<close>, followed by the
  option flags, followed for \<^verbatim>\<open>up\<close> and \<^verbatim>\<open>preview\<close> by \<^verbatim>\<open>--exec-kind auto.local\<close>, and
  then by the arguments the workspace serialises for the stack. Whatever the collaborators
  do, the operation makes that call first or rejects without any call. It does make the
  call when the stack is selected, the workspace gives its environment and its serialised
  arguments and, for \<^verbatim>\<open>up\<close> and \<^verbatim>\<open>preview\<close>, no program is present: the list then ends
  with exactly the serialised arguments.
\<close>

theorem lifecycle_invocation_arguments:
  "(case up pf this uopts s of (r, s') \<Rightarrow>
      (invocations s' = invocations s \<and> (\<exists>e. r = Inl e))
      \<or> (\<exists>extra rest. invocations s' = invocations s @
            ([''up'', ''--yes'', ''--skip-preview''] @ snd (up_options uopts (None, []))
              @ [''--exec-kind'', ''auto.local''] @ extra) # rest))
   \<and> (case preview pf this popts s of (r, s') \<Rightarrow>
      (invocations s' = invocations s \<and> (\<exists>e. r = Inl e))
      \<or> (\<exists>extra rest. invocations s' = invocations s @
            ([''preview''] @ snd (preview_options popts (None, []))
              @ [''--exec-kind'', ''auto.local''] @ extra) # rest))
   \<and> (case refresh pf this ropts s of (r, s') \<Rightarrow>
      (invocations s' = invocations s \<and> (\<exists>e. r = Inl e))
      \<or> (\<exists>extra rest. invocations s' = invocations s @
            ([''refresh'', ''--yes'', ''--skip-preview''] @ refresh_options ropts [] @ extra)
            # rest))
   \<and> (case destroy pf this dopts s of (r, s') \<Rightarrow>
      (invocations s' = invocations s \<and> (\<exists>e. r = Inl e))
      \<or> (\<exists>extra rest. invocations s' = invocations s @
            ([''destroy'', ''--yes'', ''--skip-preview''] @ destroy_options dopts [] @ extra)
            # rest))
   \<and> (getProgram (stack_workspace this) (world s) = None
      \<and> (case uopts of None \<Rightarrow> None | Some opt \<Rightarrow> up_program opt) = None
      \<and> selectStack (stack_workspace this) (stack_name this) (world s) = (Inr (), w_sel)
      \<and> getEnvVars (stack_workspace this) w_sel = (Inr envs, w_env)
      \<and> serializeArgsForOp (stack_workspace this) (stack_name this) w_env
          = (Inr additionalArgs, w_args) \<longrightarrow>
        (\<exists>rest. invocations (snd (up pf this uopts s)) = invocations s @
            ([''up'', ''--yes'', ''--skip-preview''] @ snd (up_options uopts (None, []))
              @ [''--exec-kind'', ''auto.local''] @ additionalArgs) # rest))
   \<and> (getProgram (stack_workspace this) (world s) = None
      \<and> (case popts of None \<Rightarrow> None | Some opt \<Rightarrow> pre_program opt) = None
      \<and> selectStack (stack_workspace this) (stack_name this) (world s) = (Inr (), w_sel)
      \<and> getEnvVars (stack_workspace this) w_sel = (Inr envs, w_env)
      \<and> serializeArgsForOp (stack_workspace this) (stack_name this) w_env
          = (Inr additionalArgs, w_args) \<longrightarrow>
        (\<exists>rest. invocations (snd (preview pf this popts s)) = invocations s @
            ([''preview''] @ snd (preview_options popts (None, []))
              @ [''--exec-kind'', ''auto.local''] @ additionalArgs) # rest))
   \<and> (selectStack (stack_workspace this) (stack_name this) (world s) = (Inr (), w_sel)
      \<and> getEnvVars (stack_workspace this) w_sel = (Inr envs, w_env)
      \<and> serializeArgsForOp (stack_workspace this) (stack_name this) w_env
          = (Inr additionalArgs, w_args) \<longrightarrow>
        (\<exists>rest. invocations (snd (refresh pf this ropts s)) = invocations s @
            ([''refresh'', ''--yes'', ''--skip-preview''] @ refresh_options ropts []
              @ additionalArgs) # rest))
   \<and> (selectStack (stack_workspace this) (stack_name this) (world s) = (Inr (), w_sel)
      \<and> getEnvVars (stack_workspace this) w_sel = (Inr envs, w_env)
      \<and> serializeArgsForOp (stack_workspace this) (stack_name this) w_env
          = (Inr additionalArgs, w_args) \<longrightarrow>
        (\<exists>rest. invocations (snd (destroy pf this dopts s)) = invocations s @
            ([''destroy'', ''--yes'', ''--skip-preview''] @ destroy_options dopts []
              @ additionalArgs) # rest))"
proof -
  note shape = lifecycle_first_call_shape
    [where pf = pf and this = this and uopts = uopts and s = s and popts = popts
       and ropts = ropts and dopts = dopts]
  have up_called: "\<exists>rest. invocations (snd (up pf this uopts s)) = invocations s @
            ([''up'', ''--yes'', ''--skip-preview''] @ snd (up_options uopts (None, []))
              @ [''--exec-kind'', ''auto.local''] @ additionalArgs) # rest"
    if p: "getProgram (stack_workspace this) (world s) = None"
        "(case uopts of None \<Rightarrow> None | Some opt \<Rightarrow> up_program opt) = None"
      and sel: "selectStack (stack_workspace this) (stack_name this) (world s) = (Inr (), w_sel)"
      and env: "getEnvVars (stack_workspace this) w_sel = (Inr envs, w_env)"
      and ser: "serializeArgsForOp (stack_workspace this) (stack_name this) w_env
          = (Inr additionalArgs, w_args)"
  proof -
    from p have "fst (up_options uopts (getProgram (stack_workspace this) (world s),
               [''up'', ''--yes'', ''--skip-preview''])) = None"
      by (cases uopts) (auto simp: up_effective_program)
    note u = up_local [OF this, of pf]
    have "\<exists>rest. invocations (snd (up pf this uopts s)) = invocations s @
            (([''up'', ''--yes'', ''--skip-preview''] @ snd (up_options uopts (None, []))
              @ [''--exec-kind'', ''auto.local'']) @ additionalArgs) # rest"
      unfolding u
      by (rule select_then_run_called
           [where f = "selectStack (stack_workspace this) (stack_name this)" and s = s,
            OF sel env ser])
         (simp add: grows_bind grows_promise_all2)
    then show ?thesis by simp
  qed
  have preview_called: "\<exists>rest. invocations (snd (preview pf this popts s)) = invocations s @
            ([''preview''] @ snd (preview_options popts (None, []))
              @ [''--exec-kind'', ''auto.local''] @ additionalArgs) # rest"
    if p: "getProgram (stack_workspace this) (world s) = None"
        "(case popts of None \<Rightarrow> None | Some opt \<Rightarrow> pre_program opt) = None"
      and sel: "selectStack (stack_workspace this) (stack_name this) (world s) = (Inr (), w_sel)"
      and env: "getEnvVars (stack_workspace this) w_sel = (Inr envs, w_env)"
      and ser: "serializeArgsForOp (stack_workspace this) (stack_name this) w_env
          = (Inr additionalArgs, w_args)"
  proof -
    from p have "fst (preview_options popts (getProgram (stack_workspace this) (world s),
               [''preview''])) = None"
      by (cases popts) (auto simp: preview_effective_program)
    note u = preview_local [OF this, of pf]
    have "\<exists>rest. invocations (snd (preview pf this popts s)) = invocations s @
            (([''preview''] @ snd (preview_options popts (None, []))
              @ [''--exec-kind'', ''auto.local'']) @ additionalArgs) # rest"
      unfolding u
      by (rule select_then_run_called
           [where f = "selectStack (stack_workspace this) (stack_name this)" and s = s,
            OF sel env ser]) (simp add: grows_bind)
    then show ?thesis by simp
  qed
  have refresh_called: "\<exists>rest. invocations (snd (refresh pf this ropts s)) = invocations s @
            ([''refresh'', ''--yes'', ''--skip-preview''] @ refresh_options ropts []
              @ additionalArgs) # rest"
    if sel: "selectStack (stack_workspace this) (stack_name this) (world s) = (Inr (), w_sel)"
      and env: "getEnvVars (stack_workspace this) w_sel = (Inr envs, w_env)"
      and ser: "serializeArgsForOp (stack_workspace this) (stack_name this) w_env
          = (Inr additionalArgs, w_args)"
  proof -
    have "\<exists>rest. invocations (snd (refresh pf this ropts s)) = invocations s @
            (([''refresh'', ''--yes'', ''--skip-preview''] @ refresh_options ropts [])
              @ additionalArgs) # rest"
      unfolding refresh_unfold
      by (rule select_then_run_called
           [where f = "selectStack (stack_workspace this) (stack_name this)" and s = s,
            OF sel env ser]) (simp add: grows_bind)
    then show ?thesis by simp
  qed
  have destroy_called: "\<exists>rest. invocations (snd (destroy pf this dopts s)) = invocations s @
            ([''destroy'', ''--yes'', ''--skip-preview''] @ destroy_options dopts []
              @ additionalArgs) # rest"
    if sel: "selectStack (stack_workspace this) (stack_name this) (world s) = (Inr (), w_sel)"
      and env: "getEnvVars (stack_workspace this) w_sel = (Inr envs, w_env)"
      and ser: "serializeArgsForOp (stack_workspace this) (stack_name this) w_env
          = (Inr additionalArgs, w_args)"
  proof -
    have "\<exists>rest. invocations (snd (destroy pf this dopts s)) = invocations s @
            (([''destroy'', ''--yes'', ''--skip-preview''] @ destroy_options dopts [])
              @ additionalArgs) # rest"
      unfolding destroy_unfold
      by (rule select_then_run_called
           [where f = "selectStack (stack_workspace this) (stack_name this)" and s = s,
            OF sel env ser]) (simp add: grows_bind)
    then show ?thesis by simp
  qed
  note s_up = shape [THEN conjunct1]
  note s_pre = shape [THEN conjunct2, THEN conjunct1]
  note s_ref = shape [THEN conjunct2, THEN conjunct2, THEN conjunct1]
  note s_des = shape [THEN conjunct2, THEN conjunct2, THEN conjunct2]
  show ?thesis
  proof (intro conjI impI)
    show "case up pf this uopts s of (r, s') \<Rightarrow>
      (invocations s' = invocations s \<and> (\<exists>e. r = Inl e))
      \<or> (\<exists>extra rest. invocations s' = invocations s @
            ([''up'', ''--yes'', ''--skip-preview''] @ snd (up_options uopts (None, []))
              @ [''--exec-kind'', ''auto.local''] @ extra) # rest)"
      by (rule s_up)
    show "case preview pf this popts s of (r, s') \<Rightarrow>
      (invocations s' = invocations s \<and> (\<exists>e. r = Inl e))
      \<or> (\<exists>extra rest. invocations s' = invocations s @
            ([''preview''] @ snd (preview_options popts (None, []))
              @ [''--exec-kind'', ''auto.local''] @ extra) # rest)"
      by (rule s_pre)
    show "case refresh pf this ropts s of (r, s') \<Rightarrow>
      (invocations s' = invocations s \<and> (\<exists>e. r = Inl e))
      \<or> (\<exists>extra rest. invocations s' = invocations s @
            ([''refresh'', ''--yes'', ''--skip-preview''] @ refresh_options ropts [] @ extra)
            # rest)"
      by (rule s_ref)
    show "case destroy pf this dopts s of (r, s') \<Rightarrow>
      (invocations s' = invocations s \<and> (\<exists>e. r = Inl e))
      \<or> (\<exists>extra rest. invocations s' = invocations s @
            ([''destroy'', ''--yes'', ''--skip-preview''] @ destroy_options dopts [] @ extra)
            # rest)"
      by (rule s_des)
  next
    assume "getProgram (stack_workspace this) (world s) = None
      \<and> (case uopts of None \<Rightarrow> None | Some opt \<Rightarrow> up_program opt) = None
      \<and> selectStack (stack_workspace this) (stack_name this) (world s) = (Inr (), w_sel)
      \<and> getEnvVars (stack_workspace this) w_sel = (Inr envs, w_env)
      \<and> serializeArgsForOp (stack_workspace this) (stack_name this) w_env
          = (Inr additionalArgs, w_args)"
    then show "\<exists>rest. invocations (snd (up pf this uopts s)) = invocations s @
            ([''up'', ''--yes'', ''--skip-preview''] @ snd (up_options uopts (None, []))
              @ [''--exec-kind'', ''auto.local''] @ additionalArgs) # rest"
      by (elim conjE) (rule up_called)
  next
    assume "getProgram (stack_workspace this) (world s) = None
      \<and> (case popts of None \<Rightarrow> None | Some opt \<Rightarrow> pre_program opt) = None
      \<and> selectStack (stack_workspace this) (stack_name this) (world s) = (Inr (), w_sel)
      \<and> getEnvVars (stack_workspace this) w_sel = (Inr envs, w_env)
      \<and> serializeArgsForOp (stack_workspace this) (stack_name this) w_env
          = (Inr additionalArgs, w_args)"
    then show "\<exists>rest. invocations (snd (preview pf this popts s)) = invocations s @
            ([''preview''] @ snd (preview_options popts (None, []))
              @ [''--exec-kind'', ''auto.local''] @ additionalArgs) # rest"
      by (elim conjE) (rule preview_called)
  next
    assume h: "selectStack (stack_workspace this) (stack_name this) (world s) = (Inr (), w_sel)
      \<and> getEnvVars (stack_workspace this) w_sel = (Inr envs, w_env)
      \<and> serializeArgsForOp (stack_workspace this) (stack_name this) w_env
          = (Inr additionalArgs, w_args)"
    from h show "\<exists>rest. invocations (snd (refresh pf this ropts s)) = invocations s @
            ([''refresh'', ''--yes'', ''--skip-preview''] @ refresh_options ropts []
              @ additionalArgs) # rest"
      by (elim conjE) (rule refresh_called)
    from h show "\<exists>rest. invocations (snd (destroy pf this dopts s)) = invocations s @
            ([''destroy'', ''--yes'', ''--skip-preview''] @ destroy_options dopts []
              @ additionalArgs) # rest"
      by (elim conjE) (rule destroy_called)
  qed
qed

text \<open>
  The first call of each of the four operations, in a workspace that serialises
  \<^verbatim>\<open>--color never\<close>.
\<close>

theorem lifecycle_invocation_arguments_witness:
  "(\<exists>rest. invocations (snd (up (test_platform ''[]'' ''{}'' ''{}'')
        (test_stack_with_args [''--color'', ''never''])
        (Some (no_up_options\<lparr>up_target := Some [''urn:a'', ''urn:b'']\<rparr>)) initial)) =
      [''up'', ''--yes'', ''--skip-preview'', ''--target'', ''urn:a'', ''--target'', ''urn:b'',
       ''--exec-kind'', ''auto.local'', ''--color'', ''never''] # rest)
   \<and> (\<exists>rest. invocations (snd (preview (test_platform ''[]'' ''{}'' ''{}'')
        (test_stack_with_args [''--color'', ''never''])
        (Some (no_preview_options\<lparr>pre_message := Some ''check''\<rparr>)) initial)) =
      [''preview'', ''--message'', ''check'', ''--exec-kind'', ''auto.local'',
       ''--color'', ''never''] # rest)
   \<and> (\<exists>rest. invocations (snd (refresh (test_platform ''[]'' ''{}'' ''{}'')
        (test_stack_with_args [''--color'', ''never''])
        (Some (no_refresh_options\<lparr>ref_expectNoChanges := Some True\<rparr>)) initial)) =
      [''refresh'', ''--yes'', ''--skip-preview'', ''--expect-no-changes'',
       ''--color'', ''never''] # rest)
   \<and> (\<exists>rest. invocations (snd (destroy (test_platform ''[]'' ''{}'' ''{}'')
        (test_stack_with_args [''--color'', ''never'']) None initial)) =
      [''destroy'', ''--yes'', ''--skip-preview'', ''--color'', ''never''] # rest)"
  using lifecycle_invocation_arguments
    [where pf = "test_platform ''[]'' ''{}'' ''{}''"
       and this = "test_stack_with_args [''--color'', ''never'']"
       and uopts = "Some (no_up_options\<lparr>up_target := Some [''urn:a'', ''urn:b'']\<rparr>)"
       and popts = "Some (no_preview_options\<lparr>pre_message := Some ''check''\<rparr>)"
       and ropts = "Some (no_refresh_options\<lparr>ref_expectNoChanges := Some True\<rparr>)"
       and dopts = None and s = initial and w_sel = "()" and w_env = "()" and w_args = "()"
       and envs = Map.empty and additionalArgs = "[''--color'', ''never'']"]
  by (simp add: test_stack_with_args_def test_workspace_def initial_def no_up_options_def
      no_preview_options_def no_refresh_options_def up_options_def preview_options_def
      refresh_options_def destroy_options_def push_message_def push_switch_def push_urns_def
      push_parallel_def truthy_string_def truthy_boolean_def truthy_number_def Let_def)

section \<open>Construction of a stack\<close>

text \<open>
  Claim C2. With mode \<^verbatim>\<open>create\<close> a failure of \<^verbatim>\<open>createStack\<close> is the outcome of
  \<^verbatim>\<open>ready\<close> and of \<^verbatim>\<open>Stack.Create\<close>; with mode \<^verbatim>\<open>select\<close> the same holds of
  \<^verbatim>\<open>selectStack\<close>. With mode \<^verbatim>\<open>upsert\<close> the stack is created first; when that fails,
  whatever the error, the stack is selected and the outcome of the selection, success or
  failure, is final; when it succeeds nothing is selected. Any other mode makes the
  constructor throw the error "unexpected Stack creation mode: " and the mode.
\<close>

theorem stack_construction_modes:
  "(createStack ws name (world s) = (Inl e, w) \<longrightarrow>
      Stack_constructor name ws ''create'' s =
        (Inr \<lparr>stack_ready = Inl e, stack_name = name, stack_workspace = ws\<rparr>, s\<lparr>world := w\<rparr>)
      \<and> Create name ws s = (Inl e, s\<lparr>world := w\<rparr>))
   \<and> (selectStack ws name (world s) = (Inl e, w) \<longrightarrow>
      Stack_constructor name ws ''select'' s =
        (Inr \<lparr>stack_ready = Inl e, stack_name = name, stack_workspace = ws\<rparr>, s\<lparr>world := w\<rparr>)
      \<and> Select name ws s = (Inl e, s\<lparr>world := w\<rparr>))
   \<and> (createStack ws name (world s) = (Inl e, w) \<and> selectStack ws name w = (r, w') \<longrightarrow>
      Stack_constructor name ws ''upsert'' s =
        (Inr \<lparr>stack_ready = r, stack_name = name, stack_workspace = ws\<rparr>, s\<lparr>world := w'\<rparr>)
      \<and> Upsert name ws s =
        (case r of
           Inl e' \<Rightarrow> Inl e'
         | Inr u \<Rightarrow> Inr \<lparr>stack_ready = r, stack_name = name, stack_workspace = ws\<rparr>,
         s\<lparr>world := w'\<rparr>))
   \<and> (createStack ws name (world s) = (Inr (), w) \<longrightarrow>
      Upsert name ws s =
        (Inr \<lparr>stack_ready = Inr (), stack_name = name, stack_workspace = ws\<rparr>, s\<lparr>world := w\<rparr>))
   \<and> (mode \<noteq> ''create'' \<and> mode \<noteq> ''select'' \<and> mode \<noteq> ''upsert'' \<longrightarrow>
      Stack_constructor name ws mode s =
        (Inl (Error (''unexpected Stack creation mode: '' @ mode)), s)
      \<and> new_and_await name ws mode s =
        (Inl (Error (''unexpected Stack creation mode: '' @ mode)), s))"
  by (auto simp: Stack_constructor_def Create_def Select_def Upsert_def new_and_await_def
      bind_io_def workspace_call_def throw_io_def return_io_def split: sum.splits)

text \<open>The three modes and an unknown one at a workspace where the stack already exists.\<close>

theorem stack_construction_modes_witness:
  "Create ''dev'' (test_workspace True None) initial = (Inl (Error ''stack already exists''), initial)
   \<and> Select ''dev'' (test_workspace False None) initial =
       (Inl (Error ''no stack named dev found''), initial)
   \<and> Upsert ''dev'' (test_workspace False None) initial =
       (Inl (Error ''no stack named dev found''), initial)
   \<and> Upsert ''dev'' (test_workspace True None) initial =
       (Inr \<lparr>stack_ready = Inr (), stack_name = ''dev'',
             stack_workspace = test_workspace True None\<rparr>, initial)
   \<and> Stack_constructor ''dev'' (test_workspace True None) ''update'' initial =
       (Inl (Error ''unexpected Stack creation mode: update''), initial)"
  using stack_construction_modes [of "test_workspace True None" "''dev''" initial
      "Error ''stack already exists''" "()" "Inr ()" "()" "''update''"]
    stack_construction_modes [of "test_workspace False None" "''dev''" initial
      "Error ''no stack named dev found''" "()" "Inl (Error ''no stack named dev found'')" "()" "''update''"]
    stack_construction_modes [of "test_workspace False None" "''dev''" initial
      "Error ''stack already exists''" "()" "Inl (Error ''no stack named dev found'')" "()" "''update''"]
  by (simp add: test_workspace_def initial_def)

section \<open>Inline programs\<close>

text \<open>
  Against C3 as stated: the caller supplies a program, the selection of the stack fails, and
  \<^verbatim>\<open>up\<close> rejects with the selection's error, not with "NYI: inline programs".
\<close>

theorem inline_program_select_failure_counterexample:
  "up_program (no_up_options\<lparr>up_program := Some (PulumiFn ''app'')\<rparr>) = Some (PulumiFn ''app'')
   \<and> up (test_platform ''[]'' ''{}'' ''{}'') (test_stack False None)
        (Some (no_up_options\<lparr>up_program := Some (PulumiFn ''app'')\<rparr>)) initial =
       (Inl (Error ''no stack named dev found''), initial)
   \<and> fst (up (test_platform ''[]'' ''{}'' ''{}'') (test_stack False None)
        (Some (no_up_options\<lparr>up_program := Some (PulumiFn ''app'')\<rparr>)) initial) \<noteq>
       Inl (Error ''NYI: inline programs'')"
  by (simp add: test_defs run_defs)

text \<open>
  Claim C3, amended. When the caller supplies an inline program, \<^verbatim>\<open>up\<close> and \<^verbatim>\<open>preview\<close>
  always reject and never call the command execution endpoint. They start by selecting the
  stack: when that succeeds the kind becomes \<^verbatim>\<open>auto.inline\<close> and the error is
  "NYI: inline programs"; when it fails, its error is the one reported.
\<close>

theorem inline_program_fails_before_invocation:
  "(up_program uopt = Some f \<longrightarrow>
      inline_program_check (Some f) ''auto.local'' =
        (''auto.inline'', Inl (Error ''NYI: inline programs''))
      \<and> (\<exists>e. fst (up pf this (Some uopt) s) = Inl e)
      \<and> invocations (snd (up pf this (Some uopt) s)) = invocations s
      \<and> (selectStack (stack_workspace this) (stack_name this) (world s) = (Inr (), w) \<longrightarrow>
           up pf this (Some uopt) s = (Inl (Error ''NYI: inline programs''), s\<lparr>world := w\<rparr>))
      \<and> (selectStack (stack_workspace this) (stack_name this) (world s) = (Inl e, w) \<longrightarrow>
           up pf this (Some uopt) s = (Inl e, s\<lparr>world := w\<rparr>)))
   \<and> (pre_program popt = Some f \<longrightarrow>
      (\<exists>e. fst (preview pf this (Some popt) s) = Inl e)
      \<and> invocations (snd (preview pf this (Some popt) s)) = invocations s
      \<and> (selectStack (stack_workspace this) (stack_name this) (world s) = (Inr (), w) \<longrightarrow>
           preview pf this (Some popt) s = (Inl (Error ''NYI: inline programs''), s\<lparr>world := w\<rparr>))
      \<and> (selectStack (stack_workspace this) (stack_name this) (world s) = (Inl e, w) \<longrightarrow>
           preview pf this (Some popt) s = (Inl e, s\<lparr>world := w\<rparr>)))"
proof (intro conjI impI)
  assume p: "up_program uopt = Some f"
  let ?ws = "getProgram (stack_workspace this) (world s)"
  have "fst (up_options (Some uopt) (?ws, [''up'', ''--yes'', ''--skip-preview''])) = Some f"
    using p by (simp add: up_effective_program)
  note u = up_inline [OF this, of pf, unfolded select_then_throw_result]
  show "inline_program_check (Some f) ''auto.local'' =
        (''auto.inline'', Inl (Error ''NYI: inline programs''))"
    by (simp add: inline_program_check_def execKind_inline_def)
  show "\<exists>e. fst (up pf this (Some uopt) s) = Inl e"
    unfolding u by (simp split: prod.splits sum.splits)
  show "invocations (snd (up pf this (Some uopt) s)) = invocations s"
    unfolding u by (simp split: prod.splits sum.splits)
  show "up pf this (Some uopt) s = (Inl (Error ''NYI: inline programs''), s\<lparr>world := w\<rparr>)"
    if "selectStack (stack_workspace this) (stack_name this) (world s) = (Inr (), w)"
    unfolding u using that by simp
  show "up pf this (Some uopt) s = (Inl e, s\<lparr>world := w\<rparr>)"
    if "selectStack (stack_workspace this) (stack_name this) (world s) = (Inl e, w)"
    unfolding u using that by simp
next
  assume p: "pre_program popt = Some f"
  let ?ws = "getProgram (stack_workspace this) (world s)"
  have "fst (preview_options (Some popt) (?ws, [''preview''])) = Some f"
    using p by (simp add: preview_effective_program)
  note u = preview_inline [OF this, of pf, unfolded select_then_throw_result]
  show "\<exists>e. fst (preview pf this (Some popt) s) = Inl e"
    unfolding u by (simp split: prod.splits sum.splits)
  show "invocations (snd (preview pf this (Some popt) s)) = invocations s"
    unfolding u by (simp split: prod.splits sum.splits)
  show "preview pf this (Some popt) s = (Inl (Error ''NYI: inline programs''), s\<lparr>world := w\<rparr>)"
    if "selectStack (stack_workspace this) (stack_name this) (world s) = (Inr (), w)"
    unfolding u using that by simp
  show "preview pf this (Some popt) s = (Inl e, s\<lparr>world := w\<rparr>)"
    if "selectStack (stack_workspace this) (stack_name this) (world s) = (Inl e, w)"
    unfolding u using that by simp
qed

text \<open>Both outcomes of C3 at the concrete collaborators.\<close>

theorem inline_program_fails_before_invocation_witness:
  "up (test_platform ''[]'' ''{}'' ''{}'') (test_stack True None)
      (Some (no_up_options\<lparr>up_program := Some (PulumiFn ''app'')\<rparr>)) initial =
     (Inl (Error ''NYI: inline programs''), initial)
   \<and> preview (test_platform ''[]'' ''{}'' ''{}'') (test_stack True None)
      (Some (no_preview_options\<lparr>pre_program := Some (PulumiFn ''app'')\<rparr>)) initial =
     (Inl (Error ''NYI: inline programs''), initial)
   \<and> up (test_platform ''[]'' ''{}'' ''{}'') (test_stack False None)
      (Some (no_up_options\<lparr>up_program := Some (PulumiFn ''app'')\<rparr>)) initial =
     (Inl (Error ''no stack named dev found''), initial)
   \<and> preview (test_platform ''[]'' ''{}'' ''{}'') (test_stack False None)
      (Some (no_preview_options\<lparr>pre_program := Some (PulumiFn ''app'')\<rparr>)) initial =
     (Inl (Error ''no stack named dev found''), initial)"
  using inline_program_fails_before_invocation
    [where uopt = "no_up_options\<lparr>up_program := Some (PulumiFn ''app'')\<rparr>"
       and popt = "no_preview_options\<lparr>pre_program := Some (PulumiFn ''app'')\<rparr>"
       and f = "PulumiFn ''app''" and pf = "test_platform ''[]'' ''{}'' ''{}''"
       and this = "test_stack True None" and s = initial and w = "()"
       and e = "Error ''no stack named dev found''"]
    inline_program_fails_before_invocation
    [where uopt = "no_up_options\<lparr>up_program := Some (PulumiFn ''app'')\<rparr>"
       and popt = "no_preview_options\<lparr>pre_program := Some (PulumiFn ''app'')\<rparr>"
       and f = "PulumiFn ''app''" and pf = "test_platform ''[]'' ''{}'' ''{}''"
       and this = "test_stack False None" and s = initial and w = "()"
       and e = "Error ''no stack named dev found''"]
  by (simp add: no_up_options_def no_preview_options_def test_stack_def test_workspace_def
      initial_def)

text \<open>
  Against C8 as stated: the workspace has a registered program, the caller passes no
  options, the selection of the stack fails, and \<^verbatim>\<open>up\<close> rejects with the selection's error.
\<close>

theorem registered_program_select_failure_counterexample:
  "getProgram (stack_workspace (test_stack False (Some (PulumiFn ''registered''))))
      (world initial) = Some (PulumiFn ''registered'')
   \<and> up (test_platform ''[]'' ''{}'' ''{}'') (test_stack False (Some (PulumiFn ''registered'')))
        None initial =
       (Inl (Error ''no stack named dev found''), initial)
   \<and> fst (up (test_platform ''[]'' ''{}'' ''{}'')
        (test_stack False (Some (PulumiFn ''registered''))) None initial) \<noteq>
       Inl (Error ''NYI: inline programs'')"
  by (simp add: test_defs run_defs)

text \<open>
  Claim C8, amended. The program of \<^verbatim>\<open>up\<close> and \<^verbatim>\<open>preview\<close> defaults to the one
  registered in the workspace: without options, or with options that carry no program, it is
  the registered one. So when the workspace has a registered program both operations
  reject whatever the options are, without calling the command execution endpoint: with
  "NYI: inline programs" when the selection of the stack succeeds, with the selection's
  error when it fails.
\<close>

theorem registered_program_fails_before_invocation:
  "getProgram (stack_workspace this) (world s) = Some f \<longrightarrow>
     fst (up_options None (Some f, args)) = Some f
     \<and> (up_program uopt = None \<longrightarrow> fst (up_options (Some uopt) (Some f, args)) = Some f)
     \<and> fst (preview_options None (Some f, args)) = Some f
     \<and> (pre_program popt = None \<longrightarrow> fst (preview_options (Some popt) (Some f, args)) = Some f)
     \<and> (\<exists>e. fst (up pf this uopts s) = Inl e)
     \<and> invocations (snd (up pf this uopts s)) = invocations s
     \<and> (\<exists>e. fst (preview pf this popts s) = Inl e)
     \<and> invocations (snd (preview pf this popts s)) = invocations s
     \<and> (selectStack (stack_workspace this) (stack_name this) (world s) = (Inr (), w) \<longrightarrow>
          up pf this uopts s = (Inl (Error ''NYI: inline programs''), s\<lparr>world := w\<rparr>)
          \<and> preview pf this popts s = (Inl (Error ''NYI: inline programs''), s\<lparr>world := w\<rparr>))
     \<and> (selectStack (stack_workspace this) (stack_name this) (world s) = (Inl e, w) \<longrightarrow>
          up pf this uopts s = (Inl e, s\<lparr>world := w\<rparr>)
          \<and> preview pf this popts s = (Inl e, s\<lparr>world := w\<rparr>))"
proof
  assume p: "getProgram (stack_workspace this) (world s) = Some f"
  have "\<exists>g. fst (up_options uopts (getProgram (stack_workspace this) (world s),
      [''up'', ''--yes'', ''--skip-preview''])) = Some g"
    using p by (simp add: up_effective_program split: option.splits)
  then obtain g where "fst (up_options uopts (getProgram (stack_workspace this) (world s),
      [''up'', ''--yes'', ''--skip-preview''])) = Some g" ..
  note u = up_inline [OF this, of pf, unfolded select_then_throw_result]
  have "\<exists>h. fst (preview_options popts (getProgram (stack_workspace this) (world s),
      [''preview''])) = Some h"
    using p by (simp add: preview_effective_program split: option.splits)
  then obtain h where "fst (preview_options popts (getProgram (stack_workspace this) (world s),
      [''preview''])) = Some h" ..
  note v = preview_inline [OF this, of pf, unfolded select_then_throw_result]
  show "fst (up_options None (Some f, args)) = Some f
     \<and> (up_program uopt = None \<longrightarrow> fst (up_options (Some uopt) (Some f, args)) = Some f)
     \<and> fst (preview_options None (Some f, args)) = Some f
     \<and> (pre_program popt = None \<longrightarrow> fst (preview_options (Some popt) (Some f, args)) = Some f)
     \<and> (\<exists>e. fst (up pf this uopts s) = Inl e)
     \<and> invocations (snd (up pf this uopts s)) = invocations s
     \<and> (\<exists>e. fst (preview pf this popts s) = Inl e)
     \<and> invocations (snd (preview pf this popts s)) = invocations s
     \<and> (selectStack (stack_workspace this) (stack_name this) (world s) = (Inr (), w) \<longrightarrow>
          up pf this uopts s = (Inl (Error ''NYI: inline programs''), s\<lparr>world := w\<rparr>)
          \<and> preview pf this popts s = (Inl (Error ''NYI: inline programs''), s\<lparr>world := w\<rparr>))
     \<and> (selectStack (stack_workspace this) (stack_name this) (world s) = (Inl e, w) \<longrightarrow>
          up pf this uopts s = (Inl e, s\<lparr>world := w\<rparr>)
          \<and> preview pf this popts s = (Inl e, s\<lparr>world := w\<rparr>))"
    unfolding u v
    by (simp add: up_effective_program preview_effective_program split: prod.splits sum.splits)
qed

text \<open>Both outcomes of C8 at the concrete collaborators.\<close>

theorem registered_program_fails_before_invocation_witness:
  "up (test_platform ''[]'' ''{}'' ''{}'') (test_stack True (Some (PulumiFn ''registered'')))
      None initial =
     (Inl (Error ''NYI: inline programs''), initial)
   \<and> preview (test_platform ''[]'' ''{}'' ''{}'')
      (test_stack True (Some (PulumiFn ''registered''))) (Some no_preview_options) initial =
     (Inl (Error ''NYI: inline programs''), initial)
   \<and> up (test_platform ''[]'' ''{}'' ''{}'') (test_stack False (Some (PulumiFn ''registered'')))
      None initial =
     (Inl (Error ''no stack named dev found''), initial)"
  using registered_program_fails_before_invocation
    [where this = "test_stack True (Some (PulumiFn ''registered''))" and s = initial
       and f = "PulumiFn ''registered''" and args = "[]" and uopt = no_up_options
       and popt = no_preview_options and pf = "test_platform ''[]'' ''{}'' ''{}''"
       and uopts = None and popts = "Some no_preview_options" and w = "()"
       and e = "Error ''no stack named dev found''"]
    registered_program_fails_before_invocation
    [where this = "test_stack False (Some (PulumiFn ''registered''))" and s = initial
       and f = "PulumiFn ''registered''" and args = "[]" and uopt = no_up_options
       and popt = no_preview_options and pf = "test_platform ''[]'' ''{}'' ''{}''"
       and uopts = None and popts = "Some no_preview_options" and w = "()"
       and e = "Error ''no stack named dev found''"]
  by (simp add: test_stack_def test_workspace_def initial_def)

section \<open>History and the summary of a result\<close>

lemma array_index_0: "array_index ''0'' (Suc n) = Some 0"
  by (simp add: array_index_def upt_conv_Cons del: upt_Suc)

lemma info_of_history:
  assumes "history pf this s = (Inr (JArr summaries), s')"
  shows "info pf this s = (Inr (case summaries of [] \<Rightarrow> None | first # others \<Rightarrow> Some first), s')"
  using assms
  by (cases summaries) (simp_all add: info_def bind_io_def return_io_def array_index_0)

lemma history_of_command:
  assumes "Stack_runPulumiCmd pf this [''history'', ''--json'', ''--show-secrets''] None s
             = (Inr res, s')"
    and "JSON_parse pf (stdout res) = Inr summaries"
  shows "history pf this s = (Inr summaries, s')"
  using assms by (simp add: history_def bind_io_def return_io_def)

text \<open>
  Claim C4. \<^verbatim>\<open>history\<close> resolves to the sequence \<^verbatim>\<open>JSON.parse\<close> made of the endpoint's
  output, as it is. On an empty sequence \<^verbatim>\<open>info\<close> resolves to \<^verbatim>\<open>undefined\<close>; on a
  non-empty one it resolves to the first element, unchanged.
\<close>

theorem history_order_and_info_first:
  "(Stack_runPulumiCmd pf this [''history'', ''--json'', ''--show-secrets''] None s = (Inr res, s')
      \<and> JSON_parse pf (stdout res) = Inr (JArr summaries) \<longrightarrow>
        history pf this s = (Inr (JArr summaries), s'))
   \<and> (history pf this s = (Inr (JArr []), s') \<longrightarrow> info pf this s = (Inr None, s'))
   \<and> (history pf this s = (Inr (JArr (first # others)), s') \<longrightarrow>
        info pf this s = (Inr (Some first), s'))"
  using history_of_command [of pf this s res s' "JArr summaries"]
    info_of_history [of pf this s "[]" s'] info_of_history [of pf this s "first # others" s']
  by simp

text \<open>A history of two updates, and an empty one.\<close>

theorem history_order_and_info_first_witness:
  \<open>history (test_platform ''[{"version":2},{"version":1}]'' ''{}'' ''{}'') (test_stack True None)
      initial =
     (Inr (JArr [JObj [(''version'', JNum 2)], JObj [(''version'', JNum 1)]]),
      \<lparr>world = (), invocations = [[''history'', ''--json'', ''--show-secrets'']]\<rparr>)
   \<and> info (test_platform ''[{"version":2},{"version":1}]'' ''{}'' ''{}'') (test_stack True None)
      initial =
     (Inr (Some (JObj [(''version'', JNum 2)])),
      \<lparr>world = (), invocations = [[''history'', ''--json'', ''--show-secrets'']]\<rparr>)
   \<and> info (test_platform ''[]'' ''{}'' ''{}'') (test_stack True None) initial =
     (Inr None, \<lparr>world = (), invocations = [[''history'', ''--json'', ''--show-secrets'']]\<rparr>)\<close>
proof -
  let ?pf = \<open>test_platform ''[{"version":2},{"version":1}]'' ''{}'' ''{}''\<close>
  let ?s' = "\<lparr>world = (), invocations = [[''history'', ''--json'', ''--show-secrets'']]\<rparr>"
  have run: \<open>Stack_runPulumiCmd ?pf (test_stack True None)
      [''history'', ''--json'', ''--show-secrets''] None initial =
      (Inr \<lparr>stdout = ''[{"version":2},{"version":1}]'', stderr = []\<rparr>, ?s')\<close>
    by (simp add: test_defs Stack_runPulumiCmd_def invoke_runPulumiCmd_def workspace_call_def
        bind_io_def return_io_def)
  have parse: \<open>JSON_parse ?pf (stdout \<lparr>stdout = ''[{"version":2},{"version":1}]'', stderr = []\<rparr>) =
      Inr (JArr [JObj [(''version'', JNum 2)], JObj [(''version'', JNum 1)]])\<close>
    by (simp add: test_platform_def test_JSON_parse_def)
  have h: "history ?pf (test_stack True None) initial =
     (Inr (JArr [JObj [(''version'', JNum 2)], JObj [(''version'', JNum 1)]]), ?s')"
    using history_order_and_info_first
      [where pf = ?pf and this = "test_stack True None" and s = initial and s' = ?s'
         and summaries = "[JObj [(''version'', JNum 2)], JObj [(''version'', JNum 1)]]"]
      run parse by blast
  have run0: "Stack_runPulumiCmd (test_platform ''[]'' ''{}'' ''{}'') (test_stack True None)
      [''history'', ''--json'', ''--show-secrets''] None initial =
      (Inr \<lparr>stdout = ''[]'', stderr = []\<rparr>, ?s')"
    by (simp add: test_defs Stack_runPulumiCmd_def invoke_runPulumiCmd_def workspace_call_def
        bind_io_def return_io_def)
  have parse0: "JSON_parse (test_platform ''[]'' ''{}'' ''{}'')
      (stdout \<lparr>stdout = ''[]'', stderr = []\<rparr>) = Inr (JArr [])"
    by (simp add: test_platform_def test_JSON_parse_def)
  have h0: "history (test_platform ''[]'' ''{}'' ''{}'') (test_stack True None) initial =
     (Inr (JArr []), ?s')"
    using history_order_and_info_first
      [where pf = "test_platform ''[]'' ''{}'' ''{}''" and this = "test_stack True None"
         and s = initial and s' = ?s' and summaries = "[]"]
      run0 parse0 by blast
  show ?thesis
    using h h0
      history_order_and_info_first
      [where pf = ?pf and this = "test_stack True None" and s = initial and s' = ?s'
         and first = "JObj [(''version'', JNum 2)]" and others = "[JObj [(''version'', JNum 1)]]"]
      history_order_and_info_first
      [where pf = "test_platform ''[]'' ''{}'' ''{}''" and this = "test_stack True None"
         and s = initial and s' = ?s']
    by blast
qed

text \<open>
  Claim C9. When the stack is selected, the command of the operation succeeds and the
  history read afterwards is empty (and, for \<^verbatim>\<open>up\<close>, the outputs are read), each of the
  four lifecycle operations resolves, and the \<^verbatim>\<open>summary\<close> of its result is \<^verbatim>\<open>undefined\<close>.
\<close>

theorem empty_history_summary_absent:
  "(getProgram (stack_workspace this) (world s) = None
      \<and> (case uopts of None \<Rightarrow> None | Some opt \<Rightarrow> up_program opt) = None
      \<and> selectStack (stack_workspace this) (stack_name this) (world s) = (Inr (), w)
      \<and> Stack_runPulumiCmd pf this
           ([''up'', ''--yes'', ''--skip-preview''] @ snd (up_options uopts (None, []))
             @ [''--exec-kind'', ''auto.local''])
           (case uopts of None \<Rightarrow> None | Some opt \<Rightarrow> up_onOutput opt) (s\<lparr>world := w\<rparr>)
         = (Inr res, s_run)
      \<and> history pf this s_run = (Inr (JArr []), s_hist)
      \<and> outputs pf this s_hist = (Inr outs, s_outs) \<longrightarrow>
        up pf this uopts s =
          (Inr \<lparr>up_stdout = stdout res, up_stderr = stderr res, up_outputs = outs,
                up_summary = None\<rparr>, s_outs))
   \<and> (getProgram (stack_workspace this) (world s) = None
      \<and> (case popts of None \<Rightarrow> None | Some opt \<Rightarrow> pre_program opt) = None
      \<and> selectStack (stack_workspace this) (stack_name this) (world s) = (Inr (), w)
      \<and> Stack_runPulumiCmd pf this
           ([''preview''] @ snd (preview_options popts (None, []))
             @ [''--exec-kind'', ''auto.local'']) None (s\<lparr>world := w\<rparr>)
         = (Inr res, s_run)
      \<and> history pf this s_run = (Inr (JArr []), s_hist) \<longrightarrow>
        preview pf this popts s =
          (Inr \<lparr>res_stdout = stdout res, res_stderr = stderr res, res_summary = None\<rparr>, s_hist))
   \<and> (selectStack (stack_workspace this) (stack_name this) (world s) = (Inr (), w)
      \<and> Stack_runPulumiCmd pf this
           ([''refresh'', ''--yes'', ''--skip-preview''] @ refresh_options ropts []) None
           (s\<lparr>world := w\<rparr>)
         = (Inr res, s_run)
      \<and> history pf this s_run = (Inr (JArr []), s_hist) \<longrightarrow>
        refresh pf this ropts s =
          (Inr \<lparr>res_stdout = stdout res, res_stderr = stderr res, res_summary = None\<rparr>, s_hist))
   \<and> (selectStack (stack_workspace this) (stack_name this) (world s) = (Inr (), w)
      \<and> Stack_runPulumiCmd pf this
           ([''destroy'', ''--yes'', ''--skip-preview''] @ destroy_options dopts []) None
           (s\<lparr>world := w\<rparr>)
         = (Inr res, s_run)
      \<and> history pf this s_run = (Inr (JArr []), s_hist) \<longrightarrow>
        destroy pf this dopts s =
          (Inr \<lparr>res_stdout = stdout res, res_stderr = stderr res, res_summary = None\<rparr>, s_hist))"
proof (intro conjI impI; elim conjE)
  assume p: "getProgram (stack_workspace this) (world s) = None"
      "(case uopts of None \<Rightarrow> None | Some opt \<Rightarrow> up_program opt) = None"
    and sel: "selectStack (stack_workspace this) (stack_name this) (world s) = (Inr (), w)"
    and run: "Stack_runPulumiCmd pf this
           ([''up'', ''--yes'', ''--skip-preview''] @ snd (up_options uopts (None, []))
             @ [''--exec-kind'', ''auto.local''])
           (case uopts of None \<Rightarrow> None | Some opt \<Rightarrow> up_onOutput opt) (s\<lparr>world := w\<rparr>)
         = (Inr res, s_run)"
    and hist: "history pf this s_run = (Inr (JArr []), s_hist)"
    and outs: "outputs pf this s_hist = (Inr outs, s_outs)"
  from p have "fst (up_options uopts (getProgram (stack_workspace this) (world s),
             [''up'', ''--yes'', ''--skip-preview''])) = None"
    by (cases uopts) (auto simp: up_effective_program)
  note u = up_local [OF this, of pf]
  from info_of_history [OF hist] have i: "info pf this s_run = (Inr None, s_hist)" by simp
  have "promise_all2 (info pf this) (outputs pf this) s_run = (Inr (None, outs), s_outs)"
    using i outs by (simp add: promise_all2_def)
  then show "up pf this uopts s =
          (Inr \<lparr>up_stdout = stdout res, up_stderr = stderr res, up_outputs = outs,
                up_summary = None\<rparr>, s_outs)"
    unfolding u using sel run
    by (simp add: bind_io_def workspace_call_def return_io_def)
next
  assume p: "getProgram (stack_workspace this) (world s) = None"
      "(case popts of None \<Rightarrow> None | Some opt \<Rightarrow> pre_program opt) = None"
    and sel: "selectStack (stack_workspace this) (stack_name this) (world s) = (Inr (), w)"
    and run: "Stack_runPulumiCmd pf this
           ([''preview''] @ snd (preview_options popts (None, []))
             @ [''--exec-kind'', ''auto.local'']) None (s\<lparr>world := w\<rparr>)
         = (Inr res, s_run)"
    and hist: "history pf this s_run = (Inr (JArr []), s_hist)"
  from p have "fst (preview_options popts (getProgram (stack_workspace this) (world s),
             [''preview''])) = None"
    by (cases popts) (auto simp: preview_effective_program)
  note u = preview_local [OF this, of pf]
  from info_of_history [OF hist] have i: "info pf this s_run = (Inr None, s_hist)" by simp
  show "preview pf this popts s =
          (Inr \<lparr>res_stdout = stdout res, res_stderr = stderr res, res_summary = None\<rparr>, s_hist)"
    unfolding u using sel run i
    by (simp add: bind_io_def workspace_call_def return_io_def)
next
  assume sel: "selectStack (stack_workspace this) (stack_name this) (world s) = (Inr (), w)"
    and run: "Stack_runPulumiCmd pf this
           ([''refresh'', ''--yes'', ''--skip-preview''] @ refresh_options ropts []) None
           (s\<lparr>world := w\<rparr>) = (Inr res, s_run)"
    and hist: "history pf this s_run = (Inr (JArr []), s_hist)"
  from info_of_history [OF hist] have i: "info pf this s_run = (Inr None, s_hist)" by simp
  show "refresh pf this ropts s =
          (Inr \<lparr>res_stdout = stdout res, res_stderr = stderr res, res_summary = None\<rparr>, s_hist)"
    unfolding refresh_unfold using sel run i
    by (simp add: bind_io_def workspace_call_def return_io_def)
next
  assume sel: "selectStack (stack_workspace this) (stack_name this) (world s) = (Inr (), w)"
    and run: "Stack_runPulumiCmd pf this
           ([''destroy'', ''--yes'', ''--skip-preview''] @ destroy_options dopts []) None
           (s\<lparr>world := w\<rparr>) = (Inr res, s_run)"
    and hist: "history pf this s_run = (Inr (JArr []), s_hist)"
  from info_of_history [OF hist] have i: "info pf this s_run = (Inr None, s_hist)" by simp
  show "destroy pf this dopts s =
          (Inr \<lparr>res_stdout = stdout res, res_stderr = stderr res, res_summary = None\<rparr>, s_hist)"
    unfolding destroy_unfold using sel run i
    by (simp add: bind_io_def workspace_call_def return_io_def)
qed

text \<open>The four operations on a stack without history.\<close>

theorem empty_history_summary_absent_witness:
  "up (test_platform ''[]'' ''{}'' ''{}'') (test_stack True None) None initial =
     (Inr \<lparr>up_stdout = ''Updating'', up_stderr = [],
           up_outputs = \<lparr>om_own = Map.empty, om_proto = None\<rparr>, up_summary = None\<rparr>,
      \<lparr>world = (),
       invocations =
         [[''up'', ''--yes'', ''--skip-preview'', ''--exec-kind'', ''auto.local''],
          [''history'', ''--json'', ''--show-secrets''],
          [''stack'', ''output'', ''--json''],
          [''stack'', ''output'', ''--json'', ''--show-secrets'']]\<rparr>)
   \<and> preview (test_platform ''[]'' ''{}'' ''{}'') (test_stack True None) None initial =
     (Inr \<lparr>res_stdout = ''Updating'', res_stderr = [], res_summary = None\<rparr>,
      \<lparr>world = (),
       invocations =
         [[''preview'', ''--exec-kind'', ''auto.local''],
          [''history'', ''--json'', ''--show-secrets'']]\<rparr>)
   \<and> refresh (test_platform ''[]'' ''{}'' ''{}'') (test_stack True None) None initial =
     (Inr \<lparr>res_stdout = ''Updating'', res_stderr = [], res_summary = None\<rparr>,
      \<lparr>world = (),
       invocations =
         [[''refresh'', ''--yes'', ''--skip-preview''],
          [''history'', ''--json'', ''--show-secrets'']]\<rparr>)
   \<and> destroy (test_platform ''[]'' ''{}'' ''{}'') (test_stack True None) None initial =
     (Inr \<lparr>res_stdout = ''Updating'', res_stderr = [], res_summary = None\<rparr>,
      \<lparr>world = (),
       invocations =
         [[''destroy'', ''--yes'', ''--skip-preview''],
          [''history'', ''--json'', ''--show-secrets'']]\<rparr>)"
proof -
  let ?pf = "test_platform ''[]'' ''{}'' ''{}''"
  let ?st = "test_stack True None"
  let ?res = "\<lparr>stdout = ''Updating'', stderr = []\<rparr>"
  let ?defs = "test_defs Stack_runPulumiCmd_def invoke_runPulumiCmd_def workspace_call_def
        bind_io_def return_io_def"
  have prog: "getProgram (stack_workspace ?st) () = None"
    and sel: "selectStack (stack_workspace ?st) (stack_name ?st) () = (Inr (), ())"
    by (simp_all add: test_defs)
  have hist: "history ?pf ?st \<lparr>world = (), invocations = cmds\<rparr> =
      (Inr (JArr []),
       \<lparr>world = (), invocations = cmds @ [[''history'', ''--json'', ''--show-secrets'']]\<rparr>)"
    for cmds
    by (simp add: test_defs history_def Stack_runPulumiCmd_def invoke_runPulumiCmd_def
        workspace_call_def bind_io_def return_io_def)
  have run: "Stack_runPulumiCmd ?pf ?st (cmd # args) None \<lparr>world = (), invocations = cmds\<rparr> =
      (Inr (if cmd = ''history'' then \<lparr>stdout = ''[]'', stderr = []\<rparr>
            else if take 2 (cmd # args) = [''stack'', ''output''] then \<lparr>stdout = ''{}'', stderr = []\<rparr>
            else ?res),
       \<lparr>world = (), invocations = cmds @ [cmd # args]\<rparr>)" for cmd args cmds
    by (simp add: test_defs Stack_runPulumiCmd_def invoke_runPulumiCmd_def
        workspace_call_def bind_io_def return_io_def)
  have outs: "outputs ?pf ?st \<lparr>world = (), invocations = cmds\<rparr> =
      (Inr \<lparr>om_own = Map.empty, om_proto = None\<rparr>,
       \<lparr>world = (), invocations = cmds @ [[''stack'', ''output'', ''--json''],
          [''stack'', ''output'', ''--json'', ''--show-secrets'']]\<rparr>)" for cmds
    by (simp add: test_defs run_defs)
  show ?thesis
    using empty_history_summary_absent
      [where pf = ?pf and this = ?st and s = initial and w = "()" and uopts = None
         and popts = None and ropts = None and dopts = None and res = ?res
         and s_run = "\<lparr>world = (), invocations =
             [[''up'', ''--yes'', ''--skip-preview'', ''--exec-kind'', ''auto.local'']]\<rparr>"
         and s_hist = "\<lparr>world = (), invocations =
             [[''up'', ''--yes'', ''--skip-preview'', ''--exec-kind'', ''auto.local''],
              [''history'', ''--json'', ''--show-secrets'']]\<rparr>"
         and s_outs = "\<lparr>world = (), invocations =
             [[''up'', ''--yes'', ''--skip-preview'', ''--exec-kind'', ''auto.local''],
              [''history'', ''--json'', ''--show-secrets''],
              [''stack'', ''output'', ''--json''],
              [''stack'', ''output'', ''--json'', ''--show-secrets'']]\<rparr>"
         and outs = "\<lparr>om_own = Map.empty, om_proto = None\<rparr>"]
      empty_history_summary_absent
      [where pf = ?pf and this = ?st and s = initial and w = "()" and uopts = None
         and popts = None and ropts = None and dopts = None and res = ?res
         and s_run = "\<lparr>world = (), invocations =
             [[''preview'', ''--exec-kind'', ''auto.local'']]\<rparr>"
         and s_hist = "\<lparr>world = (), invocations =
             [[''preview'', ''--exec-kind'', ''auto.local''],
              [''history'', ''--json'', ''--show-secrets'']]\<rparr>"]
      empty_history_summary_absent
      [where pf = ?pf and this = ?st and s = initial and w = "()" and uopts = None
         and popts = None and ropts = None and dopts = None and res = ?res
         and s_run = "\<lparr>world = (), invocations =
             [[''refresh'', ''--yes'', ''--skip-preview'']]\<rparr>"
         and s_hist = "\<lparr>world = (), invocations =
             [[''refresh'', ''--yes'', ''--skip-preview''],
              [''history'', ''--json'', ''--show-secrets'']]\<rparr>"]
      empty_history_summary_absent
      [where pf = ?pf and this = ?st and s = initial and w = "()" and uopts = None
         and popts = None and ropts = None and dopts = None and res = ?res
         and s_run = "\<lparr>world = (), invocations =
             [[''destroy'', ''--yes'', ''--skip-preview'']]\<rparr>"
         and s_hist = "\<lparr>world = (), invocations =
             [[''destroy'', ''--yes'', ''--skip-preview''],
              [''history'', ''--json'', ''--show-secrets'']]\<rparr>"]
    by (simp add: prog sel hist run outs up_options_def preview_options_def
        refresh_options_def destroy_options_def initial_def)
qed

section \<open>Reconciliation of the outputs\<close>

text \<open>
  On a plaintext view without the key \<^verbatim>\<open>__proto__\<close> the reconciliation is exact: the result
  has the keys of the plaintext view, each with the plaintext value and the secret flag of
  the masked view.
\<close>

lemma outputs_loop_ordinary_keys:
  assumes "distinct (map fst plaintext)" and "''__proto__'' \<notin> fst ` set plaintext"
  shows "\<exists>outs. outputs_loop (JObj masked) plaintext outs0 = Inr outs
           \<and> om_proto outs = om_proto outs0
           \<and> (\<forall>key. om_own outs key =
                 (case map_of plaintext key of
                    None \<Rightarrow> om_own outs0 key
                  | Some v \<Rightarrow>
                      Some \<lparr>ov_value = v,
                            ov_secret = (map_of masked key = Some (JStr ''[secret]''))\<rparr>))"
  using assms
proof (induction plaintext arbitrary: outs0)
  case Nil
  then show ?case by simp
next
  case (Cons entry entries)
  obtain key v where entry: "entry = (key, v)" by (cases entry)
  let ?outs1 = "OutputMap_assign outs0 key
      \<lparr>ov_value = v, ov_secret = (map_of masked key = Some (JStr ''[secret]''))\<rparr>"
  from Cons.prems entry have d: "distinct (map fst entries)" "''__proto__'' \<notin> fst ` set entries"
    and k: "key \<noteq> ''__proto__''" "key \<notin> fst ` set entries"
    by auto
  from Cons.IH [OF d, of ?outs1] obtain outs where
    o: "outputs_loop (JObj masked) entries ?outs1 = Inr outs"
      "om_proto outs = om_proto ?outs1"
      "\<forall>key'. om_own outs key' =
         (case map_of entries key' of
            None \<Rightarrow> om_own ?outs1 key'
          | Some v' \<Rightarrow>
              Some \<lparr>ov_value = v',
                    ov_secret = (map_of masked key' = Some (JStr ''[secret]''))\<rparr>)"
    by blast
  have "map_of entries key = None"
    using k(2) by (simp add: map_of_eq_None_iff)
  with o k(1) entry show ?case
    by (auto simp: secretSentinal_def OutputMap_assign_def split: option.splits)
qed

lemma reconcile_ordinary_keys:
  assumes masked: "JSON_parse pf masked_text = Inr (JObj masked)"
    and plaintext: "JSON_parse pf plaintext_text = Inr (JObj plaintext)"
    and keys: "distinct (map fst plaintext)" "''__proto__'' \<notin> fst ` set plaintext"
  shows "\<exists>outs. reconcile pf masked_text plaintext_text = Inr outs
           \<and> om_proto outs = None
           \<and> dom (om_own outs) = fst ` set plaintext
           \<and> (\<forall>key v. map_of plaintext key = Some v \<longrightarrow>
                 om_own outs key =
                   Some \<lparr>ov_value = v,
                         ov_secret = (map_of masked key = Some (JStr ''[secret]''))\<rparr>)"
proof -
  let ?empty = "\<lparr>om_own = Map.empty, om_proto = None\<rparr>"
  from outputs_loop_ordinary_keys [OF keys, of masked ?empty]
  obtain outs where loop: "outputs_loop (JObj masked) plaintext ?empty = Inr outs"
    and proto: "om_proto outs = om_proto ?empty"
    and own: "\<And>key. om_own outs key =
       (case map_of plaintext key of
          None \<Rightarrow> om_own ?empty key
        | Some v \<Rightarrow>
            Some \<lparr>ov_value = v, ov_secret = (map_of masked key = Some (JStr ''[secret]''))\<rparr>)"
    by blast
  have "dom (om_own outs) = dom (map_of plaintext)"
    by (auto simp: own dom_def split: option.splits)
  then have "dom (om_own outs) = fst ` set plaintext"
    by (simp add: dom_map_of_conv_image_fst)
  moreover have "om_own outs key =
      Some \<lparr>ov_value = v, ov_secret = (map_of masked key = Some (JStr ''[secret]''))\<rparr>"
    if "map_of plaintext key = Some v" for key v
    using that by (simp add: own)
  ultimately show ?thesis
    using loop proto masked plaintext by (simp add: reconcile_def)
qed

text \<open>An ordinary pair of views: one plain output and one secret.\<close>

lemma outputs_ordinary_example:
  \<open>\<exists>outs. fst (outputs
             (test_platform ''[]'' ''{"url":"http://a","token":"[secret]"}''
                ''{"url":"http://a","token":"hunter2"}'')
             (test_stack True None) initial) = Inr outs
       \<and> dom (om_own outs) = {''url'', ''token''}
       \<and> om_own outs ''url'' = Some \<lparr>ov_value = JStr ''http://a'', ov_secret = False\<rparr>
       \<and> om_own outs ''token'' = Some \<lparr>ov_value = JStr ''hunter2'', ov_secret = True\<rparr>
       \<and> om_proto outs = None\<close>
  by (auto simp: test_defs run_defs)

text \<open>
  Claim C1, at an input where the code breaks it. The plaintext view has the single key
  \<^verbatim>\<open>__proto__\<close>, masked as a secret. \<^verbatim>\<open>outputs\<close> resolves to an object without any own
  property: the assignment has replaced the object's prototype instead.
\<close>

theorem outputs_proto_key_not_own:
  \<open>JSON_parse (test_platform ''[]'' ''{"__proto__":"[secret]"}'' ''{"__proto__":"hunter2"}'')
       ''{"__proto__":"hunter2"}'' = Inr (JObj [(''__proto__'', JStr ''hunter2'')])
   \<and> fst (outputs (test_platform ''[]'' ''{"__proto__":"[secret]"}'' ''{"__proto__":"hunter2"}'')
         (test_stack True None) initial) =
     Inr \<lparr>om_own = Map.empty,
          om_proto = Some \<lparr>ov_value = JStr ''hunter2'', ov_secret = True\<rparr>\<rparr>\<close>
  by (simp add: test_defs run_defs)

section \<open>The run of the test language runtime\<close>

text \<open>
  Claim C7. \<^verbatim>\<open>Run\<close> returns the empty string and no error when the program returns
  \<^verbatim>\<open>nil\<close>, and the program's error message and no error when the program fails. When
  \<^verbatim>\<open>grpc.Dial\<close> fails it returns the empty string and the dial error wrapped with
  "could not connect to resource monitor": a non-nil error, which a failure of the program
  never gives.
\<close>

theorem Run_outcomes:
  "(grpc_Dial (MonitorAddress runInfo) = Inr conn
      \<and> program p runInfo
           \<lparr>resmon = NewResourceMonitorClient conn, rm_enableSecrets = enableSecrets p\<rparr> = None
      \<longrightarrow> Run grpc_Dial p runInfo = ([], None))
   \<and> (grpc_Dial (MonitorAddress runInfo) = Inr conn
      \<and> program p runInfo
           \<lparr>resmon = NewResourceMonitorClient conn, rm_enableSecrets = enableSecrets p\<rparr>
         = Some progerr
      \<longrightarrow> Run grpc_Dial p runInfo = (go_Error progerr, None))
   \<and> (grpc_Dial (MonitorAddress runInfo) = Inl err
      \<longrightarrow> Run grpc_Dial p runInfo =
            ([], Some (Wrapf err ''could not connect to resource monitor''))
          \<and> go_Error (Wrapf err ''could not connect to resource monitor'') =
            ''could not connect to resource monitor: '' @ go_Error err)"
  by (simp add: Run_def)

text \<open>The three outcomes of \<^verbatim>\<open>Run\<close> at a concrete dialer.\<close>

theorem Run_outcomes_witness:
  "Run test_Dial (test_runtime None) \<lparr>MonitorAddress = ''127.0.0.1:4000''\<rparr> = ([], None)
   \<and> Run test_Dial (test_runtime (Some (New ''resource rejected'')))
        \<lparr>MonitorAddress = ''127.0.0.1:4000''\<rparr> = (''resource rejected'', None)
   \<and> Run test_Dial (test_runtime None) \<lparr>MonitorAddress = ''10.0.0.1:9''\<rparr> =
       ([], Some (Wrapf (New ''connection refused'') ''could not connect to resource monitor''))
   \<and> go_Error (Wrapf (New ''connection refused'') ''could not connect to resource monitor'') =
       ''could not connect to resource monitor: connection refused''"
  using Run_outcomes
    [where grpc_Dial = test_Dial and runInfo = "\<lparr>MonitorAddress = ''127.0.0.1:4000''\<rparr>"
       and conn = 1 and p = "test_runtime None" and err = "New ''connection refused''"]
    Run_outcomes
    [where grpc_Dial = test_Dial and runInfo = "\<lparr>MonitorAddress = ''127.0.0.1:4000''\<rparr>"
       and conn = 1 and p = "test_runtime (Some (New ''resource rejected''))"
       and progerr = "New ''resource rejected''" and err = "New ''connection refused''"]
    Run_outcomes
    [where grpc_Dial = test_Dial and runInfo = "\<lparr>MonitorAddress = ''10.0.0.1:9''\<rparr>"
       and conn = 1 and p = "test_runtime None" and err = "New ''connection refused''"]
  by (simp add: test_Dial_def test_runtime_def)

end
